theory Spec2Isabelle
  imports Main
begin

section \<open>The timeline editor of MapscrollerEditor (src/editor/Editor.ts)\<close>

text \<open>
  The editor is a class whose methods mutate its private fields, the DOM nodes it owns
  and the content objects the host application hands to it. The embedding makes that
  state explicit: one record \<open>state\<close> holds the editor's fields, the outline nodes, the
  text box, and a heap of the host's content objects, addressed by reference. Every
  method is a function from states to states; a method that can throw returns the
  exception beside the state it leaves behind.

  Numbers are JavaScript numbers in the source. Times and positions are modelled as
  \<open>int\<close>, indices as \<open>nat\<close>: rounding, \<open>NaN\<close> and infinities are outside the model.
\<close>

subsection \<open>Values of the host application\<close>

text \<open>A JSON value: what \<open>JSON.parse\<close> returns and what an untyped field holds.\<close>

datatype json =
    JNull
  | JBool bool
  | JNum int
  | JStr string
  | JArr "json list"
  | JObj "(string \<times> json) list"

text \<open>A stop's \<open>position\<close> is \<open>number | string\<close>: an absolute time, or a text such as
  \<open>+100\<close> or \<open>-50\<close> relative to an edge of the owning content's interval.\<close>

datatype position = PNum int | PStr string

text \<open>\<open>InterpolationStop\<close>: a stop as the content's data blob stores it.\<close>

record stop =
  position :: position
  sval :: json

text \<open>\<open>Partial<InterpolationStop>\<close>: every field may be absent.\<close>

record partial_stop =
  p_position :: "position option"
  p_sval :: "json option"

text \<open>\<open>ParsedInterpolationStop\<close>: a stop as an interpolator's \<open>getStops()\<close> returns it,
  with its resolved absolute position and the kind of its position
  (\<open>'start' | 'end' | 'absolute'\<close>, a string at run time).\<close>

record parsed_stop = stop +
  absolutePosition :: int
  stype :: string

text \<open>\<open>IContentData\<close>: the data blob of a content. The editor reads and writes \<open>low\<close>,
  \<open>high\<close> and \<open>interpolators\<close>; every other key (\<open>type\<close>, \<open>required\<close>, ...) is kept in
  \<open>others\<close>, in the order of the object's keys. An object with string keys is an
  association list in key order, each key once.\<close>

record content_data =
  d_low :: int
  d_high :: int
  d_interpolators :: "(string \<times> stop list) list option"
  d_others :: "(string \<times> json) list"

text \<open>\<open>Partial<IContentData>\<close>.\<close>

record partial_data =
  p_low :: "int option"
  p_high :: "int option"
  p_interpolators :: "(string \<times> stop list) list option"
  p_others :: "(string \<times> json) list"

text \<open>
  \<open>IEditorContent\<close>: a content object of the host application. \<open>low\<close> and \<open>high\<close> are its
  interval, \<open>getType\<close> and \<open>getLabel\<close> what the methods of these names return
  (\<open>getLabel\<close> is \<open>None\<close> also when the optional method is missing), \<open>getData\<close> its data
  blob, \<open>getInterpolators\<close> the named interpolators, each given by its \<open>getStops()\<close>.
  The object is owned by the host; of \<open>setData\<close> the model keeps what the editor can
  see: the blob it passed becomes the content's data, and \<open>setData_calls\<close> records
  every call, oldest first. \<open>listeners\<close> counts the editor's subscriptions to the
  content's \<open>intervalChanged\<close> event.
\<close>

record content =
  low :: int
  high :: int
  getType :: "string option"
  getLabel :: "string option"
  getData :: "content_data option"
  getInterpolators :: "(string \<times> parsed_stop list) list"
  setData_calls :: "content_data list"
  listeners :: nat

definition setData :: "content_data \<Rightarrow> content \<Rightarrow> content" where
  "setData d c = c\<lparr>getData := Some d, setData_calls := setData_calls c @ [d]\<rparr>"

subsection \<open>The view model\<close>

text \<open>\<open>TKey\<close>. The engine hands keyframes back as \<open>TimelineKeyframe\<close>, which the code
  casts and then tests for a missing \<open>keyIdx\<close>; so \<open>keyIdx\<close> is optional here.\<close>

record key =
  val :: int
  keyIdx :: "nat option"
  ktype :: string
  kgroup :: "string option"

datatype keyframesStyle = moduleKeyframeStyle | propertyKeyframeStyle

text \<open>\<open>TRow = TRowModule | TRowProperty\<close>, as one record: \<open>rtype\<close> is the \<open>type\<close> tag
  (\<open>'module'\<close> or \<open>'property'\<close>), fields a variant lacks are \<open>None\<close>. \<open>moduleIdx\<close> is
  optional for the same reason as \<open>keyIdx\<close>.\<close>

record row =
  rtype :: string
  contentType :: "string option"
  label :: "string option"
  rmin :: "int option"
  rmax :: "int option"
  hidden :: bool
  moduleIdx :: "nat option"
  rowKeyframesStyle :: keyframesStyle
  groupFillColor :: "string option"
  propertyName :: "string option"
  keyframes :: "key list"

text \<open>A \<open>div\<close> of the outline: the module its click handler toggles, its classes, the
  style properties the editor sets, its text and its tooltip.\<close>

record node =
  onclick :: "nat option"
  classList :: "string list"
  display :: string
  maxHeight :: string
  minHeight :: string
  marginBottom :: string
  innerText :: string
  title :: string

datatype error = Error string | TypeError

type_synonym ref = nat

text \<open>The editor's fields (\<open>_expandedRows\<close>, \<open>_timelineModel.rows\<close>, \<open>_contents\<close>,
  \<open>_dirty\<close>, \<open>_updateButtonHandler\<close> as the row and keyframe its closure holds), the
  time of the timeline, the children of \<open>_outlineItemsEl\<close>, the text of \<open>_textarea\<close>
  and of \<open>_errorMsg\<close>, and the host's content objects.\<close>

record state =
  expandedRows :: "bool option list"
  rows :: "row list"
  contents :: "ref list"
  dirty :: bool
  time :: int
  outline :: "node list"
  textarea :: string
  errorMsg :: string
  updateButtonHandler :: "(row \<times> key option) option"
  heap :: "ref \<Rightarrow> content"

subsection \<open>Numbers as text\<close>

text \<open>\<open>Number.prototype.toString\<close> on an integer: its decimal digits, with a minus sign
  when negative.\<close>

definition digit :: "nat \<Rightarrow> char" where
  "digit d = ''0123456789'' ! d"

function toString_nat :: "nat \<Rightarrow> string" where
  "toString_nat n = (if n < 10 then [digit n] else toString_nat (n div 10) @ [digit (n mod 10)])"
  by pat_completeness auto
termination
  by (relation "measure id") auto

declare toString_nat.simps [simp del]

definition toString :: "int \<Rightarrow> string" where
  "toString i = (if i < 0 then CHR ''-'' # toString_nat (nat (- i)) else toString_nat (nat i))"

subsection \<open>Arrays with holes\<close>

text \<open>\<open>xs[i]\<close> on an \<open>Array<boolean | undefined>\<close>: \<open>undefined\<close> past the end.
  \<open>xs[i] = v\<close> past the end extends the array with holes, which read as \<open>undefined\<close>.\<close>

definition get_at :: "'a option list \<Rightarrow> nat \<Rightarrow> 'a option" where
  "get_at xs i = (if i < length xs then xs ! i else None)"

definition set_at :: "'a option list \<Rightarrow> nat \<Rightarrow> 'a option \<Rightarrow> 'a option list" where
  "set_at xs i v =
     (if i < length xs then xs[i := v] else xs @ replicate (i - length xs) None @ [v])"

definition truthy :: "bool option \<Rightarrow> bool" where
  "truthy b = (b = Some True)"

subsection \<open>Contents\<close>

text \<open>\<open>addContent\<close>. The array \<open>empty\<close> the source builds after the push is never stored,
  so it leaves no trace in the state.\<close>

definition onContentsChanged :: "state \<Rightarrow> state" where
  "onContentsChanged s = s\<lparr>dirty := True\<rparr>"

definition attach :: "content \<Rightarrow> content" where
  "attach c = c\<lparr>listeners := Suc (listeners c)\<rparr>"

text \<open>\<open>detach\<close> removes every subscription of the editor's handler.\<close>

definition detach :: "content \<Rightarrow> content" where
  "detach c = c\<lparr>listeners := 0\<rparr>"

definition addContent :: "ref \<Rightarrow> state \<Rightarrow> state" where
  "addContent c s =
     (if c \<in> set (contents s) then s
      else onContentsChanged
             (s\<lparr>heap := (heap s)(c := attach (heap s c)), contents := contents s @ [c]\<rparr>))"

text \<open>\<open>indexOf\<close>: the first index holding the reference, \<open>None\<close> for \<open>-1\<close>.\<close>

fun indexOf :: "ref list \<Rightarrow> ref \<Rightarrow> nat option" where
  "indexOf [] c = None"
| "indexOf (x # xs) c = (if x = c then Some 0 else map_option Suc (indexOf xs c))"

text \<open>\<open>xs.splice(idx, 1)\<close>.\<close>

definition splice1 :: "'a list \<Rightarrow> nat \<Rightarrow> 'a list" where
  "splice1 xs idx = take idx xs @ drop (Suc idx) xs"

definition removeContent :: "ref \<Rightarrow> state \<Rightarrow> state" where
  "removeContent c s =
     (case indexOf (contents s) c of
        None \<Rightarrow> s
      | Some idx \<Rightarrow>
          onContentsChanged
            (s\<lparr>heap := (heap s)(c := detach (heap s c)),
               contents := splice1 (contents s) idx,
               expandedRows := splice1 (expandedRows s) idx\<rparr>))"

definition setTime :: "int \<Rightarrow> state \<Rightarrow> state" where
  "setTime currentTime s = s\<lparr>time := currentTime\<rparr>"

definition reset :: "state \<Rightarrow> state" where
  "reset s = s\<lparr>contents := [], expandedRows := [], time := 0\<rparr>"

text \<open>\<open>_getContent\<close>: \<open>this._contents[moduleIdx]\<close>, which is \<open>undefined\<close> past the end
  and for a missing index.\<close>

definition getContent :: "nat option \<Rightarrow> state \<Rightarrow> error + ref" where
  "getContent idx s =
     (case idx of
        None \<Rightarrow> Inl (Error ''Content not found'')
      | Some i \<Rightarrow>
          if i < length (contents s) then Inr (contents s ! i)
          else Inl (Error ''Content not found''))"

subsection \<open>Rebuilding the rows and the outline\<close>

definition rowFromContent :: "content \<Rightarrow> nat \<Rightarrow> row" where
  "rowFromContent content idx =
     \<lparr> rtype = ''module'',
       contentType = getType content,
       label = (case getLabel content of Some l \<Rightarrow> Some l | None \<Rightarrow> getType content),
       rmin = None,
       rmax = None,
       hidden = False,
       moduleIdx = Some idx,
       rowKeyframesStyle = moduleKeyframeStyle,
       groupFillColor = None,
       propertyName = None,
       keyframes =
         [ \<lparr>val = low content, keyIdx = Some 0, ktype = ''absolute'', kgroup = None\<rparr>,
           \<lparr>val = high content, keyIdx = Some 1, ktype = ''absolute'', kgroup = None\<rparr> ] \<rparr>"

text \<open>\<open>getStops().map((s, keyIdx) => ...)\<close>, the index counted from \<open>k\<close>.\<close>

fun keysFromStops :: "string \<Rightarrow> nat \<Rightarrow> parsed_stop list \<Rightarrow> key list" where
  "keysFromStops name k [] = []"
| "keysFromStops name k (s # ss) =
     \<lparr>val = absolutePosition s, keyIdx = Some k, ktype = stype s,
      kgroup = Some (name @ toString_nat k)\<rparr> # keysFromStops name (Suc k) ss"

definition rowFromProperty ::
  "bool option list \<Rightarrow> content \<Rightarrow> nat \<Rightarrow> string \<Rightarrow> parsed_stop list \<Rightarrow> row" where
  "rowFromProperty expanded content idx name stops =
     \<lparr> rtype = ''property'',
       contentType = None,
       label = Some name,
       rmin = Some (low content),
       rmax = Some (high content),
       hidden = (\<not> truthy (get_at expanded idx)),
       moduleIdx = Some idx,
       rowKeyframesStyle = propertyKeyframeStyle,
       groupFillColor = Some ''transparent'',
       propertyName = Some name,
       keyframes = keysFromStops name 0 stops \<rparr>"

text \<open>The \<open>for ... in\<close> loop over a content's interpolators: one push per entry.\<close>

fun pushProperties ::
  "bool option list \<Rightarrow> content \<Rightarrow> nat \<Rightarrow> (string \<times> parsed_stop list) list \<Rightarrow> row list \<Rightarrow> row list" where
  "pushProperties expanded content idx [] acc = acc"
| "pushProperties expanded content idx ((name, stops) # rest) acc =
     pushProperties expanded content idx rest
       (acc @ [rowFromProperty expanded content idx name stops])"

text \<open>The \<open>forEach\<close> over \<open>_contents\<close>, from index \<open>idx\<close> on.\<close>

fun pushContents :: "state \<Rightarrow> nat \<Rightarrow> ref list \<Rightarrow> row list \<Rightarrow> row list" where
  "pushContents s idx [] acc = acc"
| "pushContents s idx (c # cs) acc =
     pushContents s (Suc idx) cs
       (pushProperties (expandedRows s) (heap s c) idx (getInterpolators (heap s c))
          (acc @ [rowFromContent (heap s c) idx]))"

text \<open>\<open>_redrawTimeline\<close>: \<open>rows.length = 0\<close>, then the pushes.\<close>

definition redrawTimeline :: "state \<Rightarrow> state" where
  "redrawTimeline s = s\<lparr>rows := pushContents s 0 (contents s) []\<rparr>"

text \<open>\<open>row.label || idx.toString()\<close>: the empty string is falsy.\<close>

definition labelOr :: "string option \<Rightarrow> nat \<Rightarrow> string" where
  "labelOr l idx =
     (case l of None \<Rightarrow> toString_nat idx
      | Some t \<Rightarrow> if t = [] then toString_nat idx else t)"

text \<open>The node \<open>_redrawOutline\<close> builds for a row; \<open>rowsStyle\<close> has height 20 and
  bottom margin 1.\<close>

definition outlineNode :: "row \<Rightarrow> nat \<Rightarrow> node" where
  "outlineNode r idx =
     \<lparr> onclick = moduleIdx r,
       classList = [''outline-node'', rtype r],
       display = (if hidden r then ''none'' else ''block''),
       maxHeight = ''20px'',
       minHeight = ''20px'',
       marginBottom = ''1px'',
       innerText = labelOr (label r) idx,
       title = labelOr (label r) idx \<rparr>"

fun appendNodes :: "nat \<Rightarrow> row list \<Rightarrow> node list \<Rightarrow> node list" where
  "appendNodes idx [] acc = acc"
| "appendNodes idx (r # rs) acc = appendNodes (Suc idx) rs (acc @ [outlineNode r idx])"

definition redrawOutline :: "state \<Rightarrow> state" where
  "redrawOutline s = s\<lparr>outline := appendNodes 0 (rows s) []\<rparr>"

text \<open>The body of \<open>_redrawLoop\<close> on a dirty tick, and the tick itself.\<close>

definition redraw :: "state \<Rightarrow> state" where
  "redraw s = (redrawOutline (redrawTimeline s))\<lparr>dirty := False\<rparr>"

definition redrawLoop :: "state \<Rightarrow> state" where
  "redrawLoop s = (if dirty s then redraw s else s)"

subsection \<open>Expanding and collapsing a module\<close>

text \<open>\<open>this._expandedRows[r.moduleIdx]\<close>, \<open>undefined\<close> for a row without \<open>moduleIdx\<close>.\<close>

definition expandedAt :: "bool option list \<Rightarrow> nat option \<Rightarrow> bool option" where
  "expandedAt xs idx = (case idx of None \<Rightarrow> None | Some i \<Rightarrow> get_at xs i)"

text \<open>
  The \<open>forEach\<close> of \<open>_toggleGroup\<close> over the rows from index \<open>idx\<close> on, with the local
  variable \<open>expanded\<close>. The rows and the outline nodes are updated in place.
  \<open>nodes[idx].style\<close> throws a \<open>TypeError\<close> when the outline has no node at \<open>idx\<close>; the
  row's \<open>hidden\<close> is already written then, and the loop stops.
\<close>

fun toggleRows ::
  "bool option list \<Rightarrow> bool \<Rightarrow> nat \<Rightarrow> row list \<Rightarrow> node list \<Rightarrow> error option \<times> row list \<times> node list" where
  "toggleRows ex expanded idx [] nodes = (None, [], nodes)"
| "toggleRows ex expanded idx (r # rs) nodes =
     (let expanded' = (if rtype r = ''module'' then truthy (expandedAt ex (moduleIdx r)) else expanded)
      in if rtype r = ''property'' then
           (if idx < length nodes then
              (case toggleRows ex expanded' (Suc idx) rs
                      (nodes[idx := (nodes ! idx)\<lparr>display := (if expanded' then ''block'' else ''none'')\<rparr>])
               of (e, rs', nodes') \<Rightarrow> (e, r\<lparr>hidden := \<not> expanded'\<rparr> # rs', nodes'))
            else (Some TypeError, r\<lparr>hidden := \<not> expanded'\<rparr> # rs, nodes))
         else
           (case toggleRows ex expanded' (Suc idx) rs nodes
            of (e, rs', nodes') \<Rightarrow> (e, r # rs', nodes')))"

definition toggleGroup :: "nat \<Rightarrow> state \<Rightarrow> error option \<times> state" where
  "toggleGroup idx s =
     (let ex = set_at (expandedRows s) idx (Some (\<not> truthy (get_at (expandedRows s) idx)))
      in case toggleRows ex False 0 (rows s) (outline s)
         of (e, rs, nodes) \<Rightarrow> (e, s\<lparr>expandedRows := ex, rows := rs, outline := nodes\<rparr>))"

text \<open>A user's gestures on the outline and the animation frames between them: a click
  on a node toggles a module, a dirty frame rebuilds the rows and the outline.\<close>

datatype gesture = Toggle nat | Redraw

fun run :: "gesture list \<Rightarrow> state \<Rightarrow> state" where
  "run [] s = s"
| "run (Toggle i # gs) s = run gs (snd (toggleGroup i s))"
| "run (Redraw # gs) s = run gs (redraw s)"

subsection \<open>The JSON functions of the platform\<close>

text \<open>
  \<open>JSON.parse\<close> and \<open>JSON.stringify\<close> belong to the platform, and a parsed value reaches
  the data model through an unchecked cast. The editor is modelled for any such
  functions: \<open>parse\<close> returns the message of the \<open>SyntaxError\<close> it throws (\<open>Inl\<close>) or the
  value, \<open>as_data\<close> and \<open>as_stop\<close> are the casts to \<open>Partial<IContentData>\<close> and
  \<open>InterpolationStop\<close>, \<open>stringify\<close> is \<open>JSON.stringify(x)\<close> on a data blob,
  \<open>pretty_data\<close> and \<open>pretty_stop\<close> are \<open>JSON.stringify(x, null, 2)\<close>.
\<close>

record json_api =
  parse :: "string \<Rightarrow> string + json"
  as_data :: "json \<Rightarrow> partial_data"
  as_stop :: "json \<Rightarrow> partial_stop"
  stringify :: "content_data \<Rightarrow> string"
  pretty_data :: "content_data option \<Rightarrow> string"
  pretty_stop :: "partial_stop \<Rightarrow> string"

subsection \<open>Objects\<close>

text \<open>\<open>obj[k] = v\<close>: an existing key keeps its place, a new key goes last.\<close>

fun objSet :: "(string \<times> 'a) list \<Rightarrow> string \<Rightarrow> 'a \<Rightarrow> (string \<times> 'a) list" where
  "objSet [] k v = [(k, v)]"
| "objSet ((k', v') # kvs) k v = (if k' = k then (k, v) # kvs else (k', v') # objSet kvs k v)"

text \<open>\<open>{ ...a, ...b }\<close> on objects: the keys of \<open>b\<close> are assigned to a copy of \<open>a\<close>, in
  order.\<close>

fun spreadObj :: "(string \<times> 'a) list \<Rightarrow> (string \<times> 'a) list \<Rightarrow> (string \<times> 'a) list" where
  "spreadObj a [] = a"
| "spreadObj a ((k, v) # b) = spreadObj (objSet a k v) b"

definition spreadData :: "content_data \<Rightarrow> partial_data \<Rightarrow> content_data" where
  "spreadData a b =
     \<lparr> d_low = (case p_low b of Some v \<Rightarrow> v | None \<Rightarrow> d_low a),
       d_high = (case p_high b of Some v \<Rightarrow> v | None \<Rightarrow> d_high a),
       d_interpolators = (case p_interpolators b of Some m \<Rightarrow> Some m | None \<Rightarrow> d_interpolators a),
       d_others = spreadObj (d_others a) (p_others b) \<rparr>"

definition spreadStop :: "stop \<Rightarrow> partial_stop \<Rightarrow> stop" where
  "spreadStop a b =
     \<lparr> position = (case p_position b of Some v \<Rightarrow> v | None \<Rightarrow> position a),
       sval = (case p_sval b of Some v \<Rightarrow> v | None \<Rightarrow> sval a) \<rparr>"

text \<open>\<open>row.propertyName\<close> used as a key or in a message: a missing name reads as the
  text \<open>undefined\<close>.\<close>

definition nameOf :: "row \<Rightarrow> string" where
  "nameOf r = (case propertyName r of Some n \<Rightarrow> n | None \<Rightarrow> ''undefined'')"

text \<open>\<open>xs[i]\<close> on an array: \<open>undefined\<close> past the end and for a missing index.\<close>

definition elemAt :: "'a list \<Rightarrow> nat option \<Rightarrow> 'a option" where
  "elemAt xs idx =
     (case idx of None \<Rightarrow> None | Some i \<Rightarrow> if i < length xs then Some (xs ! i) else None)"

text \<open>\<open>data.interpolators?.[name]\<close>: the stops stored under a property name.\<close>

definition lookupProperty :: "content_data \<Rightarrow> string \<Rightarrow> stop list option" where
  "lookupProperty d name = (case d_interpolators d of None \<Rightarrow> None | Some m \<Rightarrow> map_of m name)"

text \<open>The data after the array stored under a property name was changed in place.\<close>

definition storeProperty :: "content_data \<Rightarrow> string \<Rightarrow> stop list \<Rightarrow> content_data" where
  "storeProperty d name stops =
     d\<lparr>d_interpolators := map_option (\<lambda>m. objSet m name stops) (d_interpolators d)\<rparr>"

subsection \<open>The text box\<close>

definition updateHandler :: "row \<times> key option \<Rightarrow> state \<Rightarrow> state" where
  "updateHandler h s = s\<lparr>updateButtonHandler := Some h\<rparr>"

definition editContentData :: "json_api \<Rightarrow> ref \<Rightarrow> state \<Rightarrow> state" where
  "editContentData api c s = s\<lparr>textarea := pretty_data api (getData (heap s c))\<rparr>"

definition getInterpolationStop :: "content \<Rightarrow> string \<Rightarrow> nat option \<Rightarrow> parsed_stop option" where
  "getInterpolationStop content name idx =
     (case map_of (getInterpolators content) name of
        None \<Rightarrow> None
      | Some stops \<Rightarrow> elemAt stops idx)"

text \<open>\<open>{ ...stop }\<close> without \<open>absolutePosition\<close> and \<open>type\<close>; the empty object when there
  is no stop.\<close>

definition stopView :: "parsed_stop option \<Rightarrow> partial_stop" where
  "stopView st =
     (case st of
        None \<Rightarrow> \<lparr>p_position = None, p_sval = None\<rparr>
      | Some t \<Rightarrow> \<lparr>p_position = Some (position t), p_sval = Some (sval t)\<rparr>)"

definition editKeyframeData :: "json_api \<Rightarrow> ref \<Rightarrow> string \<Rightarrow> key \<Rightarrow> state \<Rightarrow> state" where
  "editKeyframeData api c name k s =
     s\<lparr>textarea := pretty_stop api (stopView (getInterpolationStop (heap s c) name (keyIdx k)))\<rparr>"

definition onModuleClicked :: "json_api \<Rightarrow> row \<Rightarrow> state \<Rightarrow> error option \<times> state" where
  "onModuleClicked api r s =
     (case getContent (moduleIdx r) s of
        Inl e \<Rightarrow> (Some e, s)
      | Inr c \<Rightarrow> (None, updateHandler (r, None) (editContentData api c s)))"

definition onPropertyKeyframeClicked ::
  "json_api \<Rightarrow> row \<Rightarrow> key \<Rightarrow> state \<Rightarrow> error option \<times> state" where
  "onPropertyKeyframeClicked api r k s =
     (case getContent (moduleIdx r) s of
        Inl e \<Rightarrow> (Some e, s)
      | Inr c \<Rightarrow> (None, updateHandler (r, Some k) (editKeyframeData api c (nameOf r) k s)))"

subsection \<open>Dragging a keyframe\<close>

text \<open>\<open>_absoluteToRelative\<close>: a number, or a text made of a sign and a number.\<close>

definition absoluteToRelative :: "content \<Rightarrow> key \<Rightarrow> error + position" where
  "absoluteToRelative content k =
     (if ktype k = ''absolute'' then Inr (PNum (val k))
      else if ktype k = ''start'' then Inr (PStr (CHR ''+'' # toString (val k - low content)))
      else if ktype k = ''end'' then Inr (PStr (CHR ''-'' # toString (high content - val k)))
      else Inl (Error ''Unexpected type''))"

definition updateModuleKeyframePosition ::
  "json_api \<Rightarrow> row \<Rightarrow> key \<Rightarrow> state \<Rightarrow> error option \<times> state" where
  "updateModuleKeyframePosition api r k s =
     (case getContent (moduleIdx r) s of
        Inl e \<Rightarrow> (Some e, s)
      | Inr c \<Rightarrow>
          (case getData (heap s c) of
             None \<Rightarrow> (Some (Error ''Module data not yet present''), s)
           | Some d \<Rightarrow>
               onModuleClicked api r
                 (s\<lparr>heap := (heap s)
                      (c := setData (if keyIdx k = Some 0 then d\<lparr>d_low := val k\<rparr>
                                     else d\<lparr>d_high := val k\<rparr>) (heap s c))\<rparr>)))"

text \<open>
  \<open>_updatePropertyKeyframePosition\<close>. \<open>!property?.length\<close> holds for a missing and for
  an empty array. In \<open>property[key.keyIdx].position = ...\<close> the right-hand side is
  computed before the store, and the store throws a \<open>TypeError\<close> when the array has no
  element at the index; nothing is written in either case.
\<close>

definition updatePropertyKeyframePosition ::
  "json_api \<Rightarrow> row \<Rightarrow> key \<Rightarrow> state \<Rightarrow> error option \<times> state" where
  "updatePropertyKeyframePosition api r k s =
     (case getContent (moduleIdx r) s of
        Inl e \<Rightarrow> (Some e, s)
      | Inr c \<Rightarrow>
          (case getData (heap s c) of
             None \<Rightarrow> (Some (Error ''Module data not yet present''), s)
           | Some d \<Rightarrow>
               (case lookupProperty d (nameOf r) of
                  None \<Rightarrow> (Some (Error (''Property not found: '' @ nameOf r)), s)
                | Some property \<Rightarrow>
                    if property = [] then (Some (Error (''Property not found: '' @ nameOf r)), s)
                    else
                      (case absoluteToRelative (heap s c) k of
                         Inl e \<Rightarrow> (Some e, s)
                       | Inr p \<Rightarrow>
                           (case keyIdx k of
                              None \<Rightarrow> (Some TypeError, s)
                            | Some i \<Rightarrow>
                                if i < length property then
                                  onPropertyKeyframeClicked api r k
                                    (s\<lparr>heap := (heap s)
                                         (c := setData
                                            (storeProperty d (nameOf r)
                                               (property[i := (property ! i)\<lparr>position := p\<rparr>]))
                                            (heap s c))\<rparr>)
                                else (Some TypeError, s))))))"

text \<open>An element of a drag event: the row and the keyframe under the pointer, either
  of which the engine may leave out.\<close>

record dragElement =
  e_row :: "row option"
  e_keyframe :: "key option"

definition processDragElement :: "json_api \<Rightarrow> dragElement \<Rightarrow> state \<Rightarrow> error option \<times> state" where
  "processDragElement api e s =
     (case e_row e of
        None \<Rightarrow> (Some (Error ''Unexpected''), s)
      | Some r \<Rightarrow>
          (case e_keyframe e of
             None \<Rightarrow> (Some (Error ''Unexpected''), s)
           | Some k \<Rightarrow>
               if moduleIdx r = None \<or> keyIdx k = None then (Some (Error ''Unexpected''), s)
               else
                 (case (if rtype r = ''module'' then updateModuleKeyframePosition api r k s
                        else (None, s)) of
                    (Some x, s1) \<Rightarrow> (Some x, s1)
                  | (None, s1) \<Rightarrow>
                      if rtype r = ''property'' then updatePropertyKeyframePosition api r k s1
                      else (None, s1))))"

text \<open>\<open>_onDrag\<close> and \<open>_onDragFinished\<close>: the elements in order, stopping at the first
  exception.\<close>

fun onDrag :: "json_api \<Rightarrow> dragElement list \<Rightarrow> state \<Rightarrow> error option \<times> state" where
  "onDrag api [] s = (None, s)"
| "onDrag api (e # es) s =
     (case processDragElement api e s of
        (Some x, s1) \<Rightarrow> (Some x, s1)
      | (None, s1) \<Rightarrow> onDrag api es s1)"

subsection \<open>Submitting the text box\<close>

text \<open>
  \<open>_updateModuleData\<close> and \<open>_updateKeyframeData\<close> are \<open>async\<close>: what they throw rejects
  the promise they return. The first component of the result is that rejection.
\<close>

definition updateModuleData ::
  "json_api \<Rightarrow> ref \<Rightarrow> partial_data \<Rightarrow> state \<Rightarrow> error option \<times> state" where
  "updateModuleData api c newData s =
     (case getData (heap s c) of
        None \<Rightarrow> (Some (Error ''Module data not yet present''), s)
      | Some contentData \<Rightarrow>
          (let merged = spreadData contentData newData
           in if stringify api merged = stringify api contentData then (None, s)
              else (None, s\<lparr>heap := (heap s)(c := setData merged (heap s c))\<rparr>)))"

definition updateKeyframeData ::
  "json_api \<Rightarrow> ref \<Rightarrow> string \<Rightarrow> nat option \<Rightarrow> partial_stop \<Rightarrow> state \<Rightarrow> error option \<times> state" where
  "updateKeyframeData api c name idx newData s =
     (case getData (heap s c) of
        None \<Rightarrow> (Some (Error ''Module data not yet present''), s)
      | Some contentData \<Rightarrow>
          (case lookupProperty contentData name of
             None \<Rightarrow> (Some (Error ''Property not found''), s)
           | Some property \<Rightarrow>
               (case idx of
                  None \<Rightarrow> (Some (Error ''Keyframe not found''), s)
                | Some i \<Rightarrow>
                    if i < length property then
                      (None,
                       s\<lparr>heap := (heap s)
                           (c := setData
                              (storeProperty contentData name
                                 (property[i := spreadStop (property ! i) newData]))
                              (heap s c))\<rparr>)
                    else (Some (Error ''Keyframe not found''), s))))"

text \<open>
  \<open>_onJsonChanged\<close>. The \<open>try\<close> block catches what \<open>JSON.parse\<close> throws. The two update
  methods are called without \<open>await\<close>, so a promise they reject is not caught here:
  their exception is dropped and no message is shown for it. The first component of
  the result is the rejection of \<open>_onJsonChanged\<close>'s own promise.
\<close>

definition onJsonChanged ::
  "json_api \<Rightarrow> row \<Rightarrow> key option \<Rightarrow> state \<Rightarrow> error option \<times> state" where
  "onJsonChanged api r k s =
     (if moduleIdx r = None then (Some (Error ''Unexpected''), s)
      else
        (case getContent (moduleIdx r) s of
           Inl e \<Rightarrow> (Some e, s)
         | Inr c \<Rightarrow>
             (let s0 = s\<lparr>errorMsg := []\<rparr>
              in case parse api (textarea s) of
                   Inl msg \<Rightarrow> (None, s0\<lparr>errorMsg := msg\<rparr>)
                 | Inr newData \<Rightarrow>
                     (let s1 = (if rtype r = ''module''
                                then snd (updateModuleData api c (as_data api newData) s0)
                                else s0);
                          s2 = (case k of
                                  None \<Rightarrow> s1
                                | Some key \<Rightarrow>
                                    if rtype r = ''property''
                                    then snd (updateKeyframeData api c (nameOf r) (keyIdx key)
                                                (as_stop api newData) s1)
                                    else s1)
                      in (None, s2)))))"

subsection \<open>Shifting the timeline with the arrow keys\<close>

text \<open>The inner \<open>forEach\<close> of \<open>_expandTimeline\<close> over the stops of one interpolator.\<close>

fun expandStops :: "int \<Rightarrow> int \<Rightarrow> stop list \<Rightarrow> stop list" where
  "expandStops currentTime v [] = []"
| "expandStops currentTime v (s # ss) =
     (case position s of
        PStr t \<Rightarrow> s
      | PNum p \<Rightarrow>
          if p > currentTime then s\<lparr>position := PNum (max (p + v) currentTime)\<rparr> else s)
     # expandStops currentTime v ss"

text \<open>The \<open>forEach\<close> over \<open>Object.values(data.interpolators)\<close>.\<close>

fun expandInterpolators ::
  "int \<Rightarrow> int \<Rightarrow> (string \<times> stop list) list \<Rightarrow> (string \<times> stop list) list" where
  "expandInterpolators currentTime v [] = []"
| "expandInterpolators currentTime v ((name, stops) # rest) =
     (name, expandStops currentTime v stops) # expandInterpolators currentTime v rest"

definition expandData :: "int \<Rightarrow> int \<Rightarrow> content_data \<Rightarrow> content_data" where
  "expandData currentTime v d =
     (let d1 = (if d_low d > currentTime then d\<lparr>d_low := max (d_low d + v) currentTime\<rparr> else d);
          d2 = (if d_high d1 > currentTime then d1\<lparr>d_high := max (d_high d1 + v) currentTime\<rparr>
                else d1)
      in case d_interpolators d2 of
           None \<Rightarrow> d2
         | Some m \<Rightarrow> d2\<lparr>d_interpolators := Some (expandInterpolators currentTime v m)\<rparr>)"

text \<open>The \<open>forEach\<close> over \<open>_contents\<close>: a content without data is skipped.\<close>

fun expandContents :: "int \<Rightarrow> int \<Rightarrow> ref list \<Rightarrow> (ref \<Rightarrow> content) \<Rightarrow> (ref \<Rightarrow> content)" where
  "expandContents currentTime v [] h = h"
| "expandContents currentTime v (c # cs) h =
     expandContents currentTime v cs
       (case getData (h c) of
          None \<Rightarrow> h
        | Some d \<Rightarrow> h(c := setData (expandData currentTime v d) (h c)))"

definition expandTimeline :: "int \<Rightarrow> state \<Rightarrow> state" where
  "expandTimeline v s = s\<lparr>heap := expandContents (time s) v (contents s) (heap s)\<rparr>"

text \<open>\<open>_onKeyPress\<close>, given the lower-cased tag of the event's target (if any) and the
  key.\<close>

definition onKeyPress :: "string option \<Rightarrow> string \<Rightarrow> state \<Rightarrow> state" where
  "onKeyPress tagName k s =
     (if tagName = Some ''textarea'' then s
      else if k = ''ArrowRight'' then expandTimeline 100 s
      else if k = ''ArrowLeft'' then expandTimeline (- 100) s
      else s)"

subsection \<open>What a redraw is specified to build\<close>

text \<open>The rows of one content, in the words of the specification: its module row,
  then one property row per entry of its interpolator map, in the map's order.\<close>

definition rowsOf :: "bool option list \<Rightarrow> content \<Rightarrow> nat \<Rightarrow> row list" where
  "rowsOf expanded content idx =
     rowFromContent content idx #
     map (\<lambda>(name, stops). rowFromProperty expanded content idx name stops)
       (getInterpolators content)"

text \<open>The rows of all contents, each content with its index in the content list.\<close>

definition rows_spec :: "state \<Rightarrow> row list" where
  "rows_spec s =
     concat (map (\<lambda>(idx, c). rowsOf (expandedRows s) (heap s c) idx) (enumerate 0 (contents s)))"

subsection \<open>An example editor\<close>

text \<open>A content from time 100 to 500 with two interpolators, a second content without
  data whose one interpolator has the empty name, and an editor that holds both, the
  first one expanded.\<close>

definition stop0 :: parsed_stop where
  "stop0 = \<lparr>position = PStr ''+50'', sval = JNum 0, absolutePosition = 150, stype = ''start''\<rparr>"

definition stop1 :: parsed_stop where
  "stop1 = \<lparr>position = PNum 400, sval = JNum 1, absolutePosition = 400, stype = ''absolute''\<rparr>"

definition data0 :: content_data where
  "data0 =
     \<lparr> d_low = 100, d_high = 500,
       d_interpolators =
         Some [(''opacity'', [\<lparr>position = PStr ''+50'', sval = JNum 0\<rparr>,
                              \<lparr>position = PNum 400, sval = JNum 1\<rparr>]),
               (''zoom'', [])],
       d_others = [(''type'', JStr ''image'')] \<rparr>"

definition content0 :: content where
  "content0 =
     \<lparr> low = 100, high = 500, getType = Some ''image'', getLabel = None,
       getData = Some data0,
       getInterpolators = [(''opacity'', [stop0, stop1]), (''zoom'', [])],
       setData_calls = [], listeners = 1 \<rparr>"

definition content1 :: content where
  "content1 =
     \<lparr> low = 0, high = 50, getType = None, getLabel = Some ''intro'',
       getData = None, getInterpolators = [([], [stop1])], setData_calls = [], listeners = 1 \<rparr>"

definition editor0 :: state where
  "editor0 =
     \<lparr> expandedRows = [Some True], rows = [], contents = [0, 1], dirty = True, time = 200,
       outline = [], textarea = [], errorMsg = [], updateButtonHandler = None,
       heap = (\<lambda>r. if r = 0 then content0 else content1) \<rparr>"

text \<open>Example platform functions: a parser that knows two texts, \<open>{"low":120}\<close> and
  \<open>{"position":300}\<close>, casts that read the one key of such an object, and a
  serialisation that prints the two bounds of a blob.\<close>

definition text_low :: string where
  "text_low = ''{'' @ [CHR 0x22] @ ''low'' @ [CHR 0x22] @ '':120}''"

definition text_position :: string where
  "text_position = ''{'' @ [CHR 0x22] @ ''position'' @ [CHR 0x22] @ '':300}''"

definition api0 :: json_api where
  "api0 =
     \<lparr> parse = (\<lambda>t. if t = text_low then Inr (JObj [(''low'', JNum 120)])
                  else if t = text_position then Inr (JObj [(''position'', JNum 300)])
                  else Inl ''Unexpected token''),
       as_data = (\<lambda>j. case j of
                    JObj [(k, JNum n)] \<Rightarrow>
                      \<lparr>p_low = (if k = ''low'' then Some n else None), p_high = None,
                       p_interpolators = None, p_others = []\<rparr>
                  | _ \<Rightarrow> \<lparr>p_low = None, p_high = None, p_interpolators = None, p_others = []\<rparr>),
       as_stop = (\<lambda>j. case j of
                    JObj [(k, JNum n)] \<Rightarrow>
                      \<lparr>p_position = (if k = ''position'' then Some (PNum n) else None),
                       p_sval = None\<rparr>
                  | _ \<Rightarrow> \<lparr>p_position = None, p_sval = None\<rparr>),
       stringify = (\<lambda>d. toString (d_low d) @ '','' @ toString (d_high d)),
       pretty_data = (\<lambda>d. case d of None \<Rightarrow> ''undefined''
                      | Some x \<Rightarrow> toString (d_low x) @ '','' @ toString (d_high x)),
       pretty_stop = (\<lambda>p. ''{}'') \<rparr>"

text \<open>Example drags on the example editor: the low edge of the first module to 120, the
  first stop of its \<open>opacity\<close> track to 175, and the low edge of the second module,
  which has no data.\<close>

definition drag_module :: dragElement where
  "drag_module =
     \<lparr> e_row = Some (rowFromContent content0 0),
       e_keyframe = Some \<lparr>val = 120, keyIdx = Some 0, ktype = ''absolute'', kgroup = None\<rparr> \<rparr>"

definition drag_property :: dragElement where
  "drag_property =
     \<lparr> e_row = Some (rowFromProperty [Some True] content0 0 ''opacity'' [stop0, stop1]),
       e_keyframe = Some \<lparr>val = 175, keyIdx = Some 0, ktype = ''start'',
                          kgroup = Some ''opacity0''\<rparr> \<rparr>"

definition drag_nodata :: dragElement where
  "drag_nodata =
     \<lparr> e_row = Some (rowFromContent content1 1),
       e_keyframe = Some \<lparr>val = 10, keyIdx = Some 0, ktype = ''absolute'', kgroup = None\<rparr> \<rparr>"

subsection \<open>What a shift of the timeline is specified to do\<close>

text \<open>In the words of the specification: a time after the playhead moves by \<open>v\<close> but
  not across the playhead; a time at or before the playhead stays. A stop with a numeric
  position is shifted so, a stop with a relative position is left alone.\<close>

definition shift :: "int \<Rightarrow> int \<Rightarrow> int \<Rightarrow> int" where
  "shift currentTime v p = (if p > currentTime then max (p + v) currentTime else p)"

definition shiftStop :: "int \<Rightarrow> int \<Rightarrow> stop \<Rightarrow> stop" where
  "shiftStop currentTime v st =
     (case position st of
        PNum p \<Rightarrow> st\<lparr>position := PNum (shift currentTime v p)\<rparr>
      | PStr t \<Rightarrow> st)"

subsection \<open>What the expand flags are specified to govern\<close>

text \<open>A row agrees with the flags when it is a module row that is not hidden, or a
  property row that is hidden exactly when the flag of its module is not set.\<close>

definition rowVisible :: "bool option list \<Rightarrow> row \<Rightarrow> bool" where
  "rowVisible ex r =
     ((rtype r = ''module'' \<longrightarrow> \<not> hidden r) \<and>
      (rtype r = ''property'' \<longrightarrow> hidden r = (\<not> truthy (expandedAt ex (moduleIdx r)))))"

definition visibility_ok :: "state \<Rightarrow> bool" where
  "visibility_ok s = list_all (rowVisible (expandedRows s)) (rows s)"

text \<open>The shape of the rows a redraw builds, which \<open>_toggleGroup\<close> relies on: every row
  has a \<open>moduleIdx\<close>, and a property row follows the module row of its own module
  (\<open>cur\<close> is the \<open>moduleIdx\<close> of the last module row before the list).\<close>

fun grouped :: "nat option \<Rightarrow> row list \<Rightarrow> bool" where
  "grouped cur [] = True"
| "grouped cur (r # rs) =
     (if rtype r = ''module'' then moduleIdx r \<noteq> None \<and> grouped (moduleIdx r) rs
      else if rtype r = ''property'' then cur \<noteq> None \<and> moduleIdx r = cur \<and> grouped cur rs
      else grouped cur rs)"

text \<open>A state in which the rows have that shape and agree with the flags, and the
  outline has one node per row.\<close>

definition consistent :: "state \<Rightarrow> bool" where
  "consistent s =
     (grouped None (rows s) \<and> visibility_ok s \<and> length (outline s) = length (rows s))"

subsection \<open>Reading decimal digits\<close>

text \<open>The number a text of decimal digits denotes, to state that \<open>toString_nat\<close> writes
  a number in decimal.\<close>

definition digitValue :: "char \<Rightarrow> nat" where
  "digitValue c = of_char c - 48"

definition decimalValue :: "string \<Rightarrow> nat" where
  "decimalValue cs = foldl (\<lambda>n c. 10 * n + digitValue c) 0 cs"

section \<open>Properties\<close>

subsection \<open>The rows of a redraw\<close>

lemma pushProperties_eq:
  "pushProperties ex c i ps acc =
     acc @ map (\<lambda>(name, stops). rowFromProperty ex c i name stops) ps"
  by (induction ps arbitrary: acc) auto

lemma pushContents_eq:
  "pushContents s i cs acc =
     acc @ concat (map (\<lambda>(idx, c). rowsOf (expandedRows s) (heap s c) idx) (enumerate i cs))"
  by (induction cs arbitrary: i acc) (auto simp: pushProperties_eq rowsOf_def)

lemma rows_redrawTimeline: "rows (redrawTimeline s) = rows_spec s"
  by (simp add: redrawTimeline_def rows_spec_def pushContents_eq)

lemma rows_redraw: "rows (redraw s) = rows_spec s"
  by (simp add: redraw_def redrawOutline_def rows_redrawTimeline)

lemma length_rowsOf: "length (rowsOf ex c i) = Suc (length (getInterpolators c))"
  by (simp add: rowsOf_def)

lemma moduleIdx_rowsOf:
  "map moduleIdx (rowsOf ex c i) = replicate (Suc (length (getInterpolators c))) (Some i)"
  by (auto simp: rowsOf_def rowFromContent_def rowFromProperty_def map_replicate_const
      intro!: replicate_eqI)

lemma length_concat_rowsOf:
  "length (concat (map (\<lambda>(idx, c). rowsOf ex (h c) idx) (enumerate i cs))) =
     length cs + sum_list (map (\<lambda>c. length (getInterpolators (h c))) cs)"
  by (induction cs arbitrary: i) (auto simp: length_rowsOf)

text \<open>
  Claim C1. A redraw of the timeline discards the old rows and builds the list anew from
  the content list: for each content, in order, its module row and then one property row
  per entry of its interpolator map (\<open>rows_spec\<close>). So there are as many rows as contents
  and interpolators together, and the \<open>moduleIdx\<close> of every row is the index of its
  content in the content list.
\<close>

theorem redrawTimeline_rows:
  "rows (redrawTimeline s) = rows_spec s \<and>
   rows (redrawTimeline (s\<lparr>rows := old\<rparr>)) = rows (redrawTimeline s) \<and>
   rows (redraw s) = rows_spec s \<and>
   length (rows (redrawTimeline s)) =
     length (contents s) + sum_list (map (\<lambda>c. length (getInterpolators (heap s c))) (contents s)) \<and>
   map moduleIdx (rows (redrawTimeline s)) =
     concat (map (\<lambda>(idx, c). replicate (Suc (length (getInterpolators (heap s c)))) (Some idx))
               (enumerate 0 (contents s)))"
proof -
  have a: "rows (redrawTimeline s) = rows_spec s" by (rule rows_redrawTimeline)
  have b: "rows (redrawTimeline (s\<lparr>rows := old\<rparr>)) = rows (redrawTimeline s)"
    by (simp add: redrawTimeline_def pushContents_eq)
  have c: "rows (redraw s) = rows_spec s" by (rule rows_redraw)
  have d: "length (rows_spec s) =
     length (contents s) + sum_list (map (\<lambda>c. length (getInterpolators (heap s c))) (contents s))"
    unfolding rows_spec_def by (rule length_concat_rowsOf)
  have e: "map moduleIdx (rows_spec s) =
     concat (map (\<lambda>(idx, c). replicate (Suc (length (getInterpolators (heap s c)))) (Some idx))
               (enumerate 0 (contents s)))"
    unfolding rows_spec_def
    by (simp add: map_concat comp_def case_prod_unfold moduleIdx_rowsOf)
  show ?thesis using a b c d e by simp
qed

theorem redrawTimeline_rows_witness:
  "length (rows (redrawTimeline editor0)) = 5 \<and>
   map moduleIdx (rows (redrawTimeline editor0)) = [Some 0, Some 0, Some 0, Some 1, Some 1] \<and>
   map rtype (rows (redrawTimeline editor0)) =
     [''module'', ''property'', ''property'', ''module'', ''property'']"
  using redrawTimeline_rows [of editor0]
  by (simp add: rows_spec_def rowsOf_def editor0_def content0_def content1_def enumerate_eq_zip
      rowFromContent_def rowFromProperty_def upt_rec)

subsection \<open>The keyframes of a row\<close>

lemma keysFromStops_val: "map val (keysFromStops name k stops) = map absolutePosition stops"
  by (induction stops arbitrary: k) auto

lemma keysFromStops_ktype: "map ktype (keysFromStops name k stops) = map stype stops"
  by (induction stops arbitrary: k) auto

lemma keysFromStops_keyIdx:
  "map keyIdx (keysFromStops name k stops) = map Some [k ..< k + length stops]"
  by (induction stops arbitrary: k) (auto simp: upt_rec)

text \<open>
  Claim C2. A module row has exactly two keyframes: the content's low bound with
  \<open>keyIdx\<close> 0 and its high bound with \<open>keyIdx\<close> 1, both of kind \<open>absolute\<close>. A property
  row has one keyframe per stop, in the order of the stops: its value is the stop's
  absolute position, its \<open>keyIdx\<close> the stop's index, its kind the stop's type.
\<close>

theorem row_keyframes:
  "keyframes (rowFromContent c idx) =
     [\<lparr>val = low c, keyIdx = Some 0, ktype = ''absolute'', kgroup = None\<rparr>,
      \<lparr>val = high c, keyIdx = Some 1, ktype = ''absolute'', kgroup = None\<rparr>] \<and>
   length (keyframes (rowFromProperty ex c idx name stops)) = length stops \<and>
   map val (keyframes (rowFromProperty ex c idx name stops)) = map absolutePosition stops \<and>
   map keyIdx (keyframes (rowFromProperty ex c idx name stops)) = map Some [0 ..< length stops] \<and>
   map ktype (keyframes (rowFromProperty ex c idx name stops)) = map stype stops"
proof -
  have "length (map val (keysFromStops name 0 stops)) = length stops"
    by (simp only: keysFromStops_val length_map)
  then have "length (keysFromStops name 0 stops) = length stops" by simp
  then show ?thesis
    using keysFromStops_keyIdx [of name 0 stops]
    by (simp add: rowFromContent_def rowFromProperty_def keysFromStops_val keysFromStops_ktype)
qed

theorem row_keyframes_witness:
  "map val (keyframes (rowFromProperty [] content0 0 ''opacity'' [stop0, stop1])) = [150, 400] \<and>
   map keyIdx (keyframes (rowFromProperty [] content0 0 ''opacity'' [stop0, stop1])) =
     [Some 0, Some 1] \<and>
   map ktype (keyframes (rowFromProperty [] content0 0 ''opacity'' [stop0, stop1])) =
     [''start'', ''absolute'']"
  using row_keyframes [of content0 0 "[]" "''opacity''" "[stop0, stop1]"]
  by (simp add: stop0_def stop1_def upt_rec)

subsection \<open>From absolute to relative positions\<close>

lemma digitValue_digit: "d < 10 \<Longrightarrow> digitValue (digit d) = d"
proof -
  assume "d < 10"
  then have "d \<in> {0, 1, 2, 3, 4, 5, 6, 7, 8, 9}" by auto
  then show ?thesis by (auto simp: digitValue_def digit_def)
qed

lemma decimalValue_toString_nat: "decimalValue (toString_nat n) = n"
proof (induction n rule: toString_nat.induct)
  case (1 n)
  show ?case
  proof (cases "n < 10")
    case True
    then show ?thesis
      by (simp add: toString_nat.simps [of n] decimalValue_def digitValue_digit)
  next
    case False
    then have ih: "decimalValue (toString_nat (n div 10)) = n div 10" using 1 by simp
    have "decimalValue (toString_nat n) =
        10 * decimalValue (toString_nat (n div 10)) + digitValue (digit (n mod 10))"
      using False by (simp add: toString_nat.simps [of n] decimalValue_def)
    then show ?thesis using ih by (simp add: digitValue_digit)
  qed
qed

lemma toString_nat_examples:
  "toString_nat 75 = ''75''" "toString_nat 325 = ''325''" "toString_nat 25 = ''25''"
  "toString_nat 4 = ''4''"
  by (simp_all add: toString_nat.simps digit_def)

text \<open>
  Claim C4. \<open>_absoluteToRelative\<close> is decided by the kind of the keyframe: for
  \<open>absolute\<close> it returns the keyframe's value unchanged; for \<open>start\<close> the text made of
  \<open>+\<close> and the value minus the content's low bound; for \<open>end\<close> the text made of \<open>-\<close> and
  the content's high bound minus the value; for every other kind it throws.
\<close>

theorem absoluteToRelative_by_tag:
  "(ktype k = ''absolute'' \<longrightarrow> absoluteToRelative c k = Inr (PNum (val k))) \<and>
   (ktype k = ''start'' \<longrightarrow>
      absoluteToRelative c k = Inr (PStr (CHR ''+'' # toString (val k - low c)))) \<and>
   (ktype k = ''end'' \<longrightarrow>
      absoluteToRelative c k = Inr (PStr (CHR ''-'' # toString (high c - val k)))) \<and>
   (ktype k \<noteq> ''absolute'' \<and> ktype k \<noteq> ''start'' \<and> ktype k \<noteq> ''end'' \<longrightarrow>
      absoluteToRelative c k = Inl (Error ''Unexpected type''))"
  by (simp add: absoluteToRelative_def)

theorem absoluteToRelative_by_tag_witness:
  "absoluteToRelative content0 \<lparr>val = 400, keyIdx = Some 1, ktype = ''absolute'', kgroup = None\<rparr>
     = Inr (PNum 400) \<and>
   absoluteToRelative content0 \<lparr>val = 175, keyIdx = Some 0, ktype = ''start'', kgroup = None\<rparr>
     = Inr (PStr ''+75'') \<and>
   absoluteToRelative content0 \<lparr>val = 75, keyIdx = Some 0, ktype = ''start'', kgroup = None\<rparr>
     = Inr (PStr ''+-25'') \<and>
   absoluteToRelative content0 \<lparr>val = 175, keyIdx = Some 0, ktype = ''end'', kgroup = None\<rparr>
     = Inr (PStr ''-325'') \<and>
   absoluteToRelative content0 \<lparr>val = 175, keyIdx = Some 0, ktype = ''middle'', kgroup = None\<rparr>
     = Inl (Error ''Unexpected type'')"
  using
    absoluteToRelative_by_tag
      [of "\<lparr>val = 400, keyIdx = Some 1, ktype = ''absolute'', kgroup = None\<rparr>" content0]
    absoluteToRelative_by_tag
      [of "\<lparr>val = 175, keyIdx = Some 0, ktype = ''start'', kgroup = None\<rparr>" content0]
    absoluteToRelative_by_tag
      [of "\<lparr>val = 75, keyIdx = Some 0, ktype = ''start'', kgroup = None\<rparr>" content0]
    absoluteToRelative_by_tag
      [of "\<lparr>val = 175, keyIdx = Some 0, ktype = ''end'', kgroup = None\<rparr>" content0]
    absoluteToRelative_by_tag
      [of "\<lparr>val = 175, keyIdx = Some 0, ktype = ''middle'', kgroup = None\<rparr>" content0]
  by (simp add: content0_def toString_def toString_nat_examples)

subsection \<open>The outline\<close>

lemma appendNodes_eq:
  "appendNodes i rs acc = acc @ map (\<lambda>(idx, r). outlineNode r idx) (enumerate i rs)"
  by (induction rs arbitrary: i acc) auto

lemma outline_redraw:
  "outline (redraw s) = map (\<lambda>(idx, r). outlineNode r idx) (enumerate 0 (rows (redraw s)))"
  by (simp add: redraw_def redrawOutline_def appendNodes_eq)

lemma rows_editor0:
  "length (rows (redraw editor0)) = 5"
  "label (rows (redraw editor0) ! 2) = Some ''zoom''"
  "hidden (rows (redraw editor0) ! 2) = False"
  "label (rows (redraw editor0) ! 4) = Some []"
  "hidden (rows (redraw editor0) ! 4) = True"
  by (simp_all add: rows_redraw rows_spec_def rowsOf_def editor0_def content0_def content1_def
      enumerate_eq_zip rowFromContent_def rowFromProperty_def upt_rec get_at_def truthy_def)

text \<open>
  Claim C7. After a redraw the outline has one node per row, in the order of the rows.
  The text and the tooltip of a node are the label of its row, or the row's index in
  decimal digits when the row has no label or an empty one; and the node is displayed
  (\<open>block\<close>, not \<open>none\<close>) exactly when its row is not hidden.
\<close>

theorem redraw_outline:
  "length (outline (redraw s)) = length (rows (redraw s)) \<and>
   (\<forall>i < length (rows (redraw s)).
      innerText (outline (redraw s) ! i) =
        (case label (rows (redraw s) ! i) of
           None \<Rightarrow> toString_nat i
         | Some l \<Rightarrow> if l = [] then toString_nat i else l) \<and>
      title (outline (redraw s) ! i) = innerText (outline (redraw s) ! i) \<and>
      (display (outline (redraw s) ! i) = ''block'') = (\<not> hidden (rows (redraw s) ! i)) \<and>
      (display (outline (redraw s) ! i) = ''none'') = hidden (rows (redraw s) ! i))"
  by (simp add: outline_redraw nth_enumerate_eq outlineNode_def labelOr_def)

theorem redraw_outline_witness:
  "length (outline (redraw editor0)) = 5 \<and>
   innerText (outline (redraw editor0) ! 2) = ''zoom'' \<and>
   display (outline (redraw editor0) ! 2) = ''block'' \<and>
   innerText (outline (redraw editor0) ! 4) = ''4'' \<and>
   title (outline (redraw editor0) ! 4) = ''4'' \<and>
   display (outline (redraw editor0) ! 4) = ''none''"
  using redraw_outline [of editor0, THEN conjunct1]
    redraw_outline [of editor0, THEN conjunct2, rule_format, of 2]
    redraw_outline [of editor0, THEN conjunct2, rule_format, of 4]
  by (simp add: rows_editor0 toString_nat_examples)

subsection \<open>Adding a content twice\<close>

text \<open>
  Claim C8. \<open>addContent\<close> with a content that the editor already holds changes nothing:
  the content list, the expanded flags and the dirty flag stay as they are and no
  further subscription is attached. So adding a content twice is the same as adding it
  once.
\<close>

theorem addContent_idempotent:
  "(c \<in> set (contents s) \<longrightarrow>
      addContent c s = s \<and>
      contents (addContent c s) = contents s \<and>
      expandedRows (addContent c s) = expandedRows s \<and>
      dirty (addContent c s) = dirty s \<and>
      listeners (heap (addContent c s) c) = listeners (heap s c)) \<and>
   c \<in> set (contents (addContent c s)) \<and>
   addContent c (addContent c s) = addContent c s"
  by (simp add: addContent_def onContentsChanged_def)

theorem addContent_idempotent_witness:
  "0 \<in> set (contents editor0) \<and>
   contents (addContent 0 editor0) = [0, 1] \<and>
   listeners (heap (addContent 0 editor0) 0) = 1 \<and>
   contents (addContent 7 (addContent 7 editor0)) = [0, 1, 7] \<and>
   listeners (heap (addContent 7 (addContent 7 editor0)) 7) = 2"
  using addContent_idempotent [of 0 editor0] addContent_idempotent [of 7 editor0]
  by (simp add: editor0_def addContent_def onContentsChanged_def attach_def content0_def
      content1_def)

subsection \<open>Dragging\<close>

lemma onModuleClicked_heap:
  "heap (snd (onModuleClicked api r s)) = heap s"
  by (simp add: onModuleClicked_def updateHandler_def editContentData_def split: sum.splits)

lemma onPropertyKeyframeClicked_heap:
  "heap (snd (onPropertyKeyframeClicked api r k s)) = heap s"
  by (simp add: onPropertyKeyframeClicked_def updateHandler_def editKeyframeData_def split: sum.splits)

lemma getContent_heap_upd [simp]: "getContent i (s\<lparr>heap := h\<rparr>) = getContent i s"
  by (simp add: getContent_def split: option.splits)

lemma onModuleClicked_ok:
  "getContent (moduleIdx r) s = Inr c \<Longrightarrow> fst (onModuleClicked api r s) = None"
  by (simp add: onModuleClicked_def)

lemma onPropertyKeyframeClicked_ok:
  "getContent (moduleIdx r) s = Inr c \<Longrightarrow> fst (onPropertyKeyframeClicked api r k s) = None"
  by (simp add: onPropertyKeyframeClicked_def)

lemma updateModuleKeyframePosition_throw:
  "fst (updateModuleKeyframePosition api r k s) \<noteq> None \<Longrightarrow>
   snd (updateModuleKeyframePosition api r k s) = s"
  by (simp add: updateModuleKeyframePosition_def onModuleClicked_ok
      split: sum.splits option.splits)

lemma updatePropertyKeyframePosition_throw:
  "fst (updatePropertyKeyframePosition api r k s) \<noteq> None \<Longrightarrow>
   snd (updatePropertyKeyframePosition api r k s) = s"
  by (simp add: updatePropertyKeyframePosition_def onPropertyKeyframeClicked_ok
      split: sum.splits option.splits if_splits)

lemma updateModuleKeyframePosition_write:
  assumes "moduleIdx r = Some i" "i < length (contents s)"
    and "getData (heap s (contents s ! i)) = Some d"
  shows "fst (updateModuleKeyframePosition api r k s) = None \<and>
         heap (snd (updateModuleKeyframePosition api r k s)) =
           (heap s)(contents s ! i :=
              setData (if keyIdx k = Some 0 then d\<lparr>d_low := val k\<rparr> else d\<lparr>d_high := val k\<rparr>)
                (heap s (contents s ! i)))"
proof -
  have g: "getContent (moduleIdx r) s = Inr (contents s ! i)"
    using assms by (simp add: getContent_def)
  show ?thesis
    using assms g
    by (simp add: updateModuleKeyframePosition_def onModuleClicked_heap onModuleClicked_ok)
qed

lemma updatePropertyKeyframePosition_write:
  assumes "moduleIdx r = Some i" "i < length (contents s)"
    and "getData (heap s (contents s ! i)) = Some d"
    and "d_interpolators d = Some m" "map_of m (nameOf r) = Some stops"
    and "keyIdx k = Some j" "j < length stops"
    and "absoluteToRelative (heap s (contents s ! i)) k = Inr p"
  shows "fst (updatePropertyKeyframePosition api r k s) = None \<and>
         heap (snd (updatePropertyKeyframePosition api r k s)) =
           (heap s)(contents s ! i :=
              setData (d\<lparr>d_interpolators :=
                          Some (objSet m (nameOf r) (stops[j := (stops ! j)\<lparr>position := p\<rparr>]))\<rparr>)
                (heap s (contents s ! i)))"
proof -
  have g: "getContent (moduleIdx r) s = Inr (contents s ! i)"
    using assms by (simp add: getContent_def)
  have ne: "stops \<noteq> []" using assms by auto
  show ?thesis
    using assms g ne
    by (simp add: updatePropertyKeyframePosition_def onPropertyKeyframeClicked_heap
        onPropertyKeyframeClicked_ok lookupProperty_def storeProperty_def)
qed

text \<open>
  Claim C3. Processing a dragged element turns the engine's row and keyframe into a write
  to the content's data. For a module row the keyframe's value is stored in \<open>low\<close> when
  \<open>keyIdx\<close> is 0 and in \<open>high\<close> otherwise. For a property row the stop at index
  \<open>keyIdx\<close> of the interpolator named by the row gets the relative form of the
  keyframe's value as its position. When the row or its \<open>moduleIdx\<close>, or the keyframe or
  its \<open>keyIdx\<close>, is missing, the call throws \<open>Unexpected\<close>; and whenever the call throws,
  the state is untouched, so no data is written. The content is the one at the row's
  \<open>moduleIdx\<close> in the content list; in the two writing cases it has data, and in the
  property case the stop exists and the keyframe's kind is one the conversion knows.
\<close>

theorem processDragElement_write:
  "(e_row e = Some r \<and> e_keyframe e = Some k \<and> moduleIdx r = Some i \<and> keyIdx k = Some j \<and>
    i < length (contents s) \<and> getData (heap s (contents s ! i)) = Some d \<and>
    rtype r = ''module'' \<longrightarrow>
      fst (processDragElement api e s) = None \<and>
      heap (snd (processDragElement api e s)) =
        (heap s)(contents s ! i :=
           setData (if j = 0 then d\<lparr>d_low := val k\<rparr> else d\<lparr>d_high := val k\<rparr>)
             (heap s (contents s ! i)))) \<and>
   (e_row e = Some r \<and> e_keyframe e = Some k \<and> moduleIdx r = Some i \<and> keyIdx k = Some j \<and>
    i < length (contents s) \<and> getData (heap s (contents s ! i)) = Some d \<and>
    rtype r = ''property'' \<and> propertyName r = Some name \<and>
    d_interpolators d = Some m \<and> map_of m name = Some stops \<and> j < length stops \<and>
    absoluteToRelative (heap s (contents s ! i)) k = Inr p \<longrightarrow>
      fst (processDragElement api e s) = None \<and>
      heap (snd (processDragElement api e s)) =
        (heap s)(contents s ! i :=
           setData (d\<lparr>d_interpolators :=
                       Some (objSet m name (stops[j := (stops ! j)\<lparr>position := p\<rparr>]))\<rparr>)
             (heap s (contents s ! i)))) \<and>
   (e_row e = None \<or> e_keyframe e = None \<or>
    (\<exists>r'. e_row e = Some r' \<and> moduleIdx r' = None) \<or>
    (\<exists>k'. e_keyframe e = Some k' \<and> keyIdx k' = None) \<longrightarrow>
      processDragElement api e s = (Some (Error ''Unexpected''), s)) \<and>
   (fst (processDragElement api e s) \<noteq> None \<longrightarrow> snd (processDragElement api e s) = s)"
proof (intro conjI impI)
  assume a: "e_row e = Some r \<and> e_keyframe e = Some k \<and> moduleIdx r = Some i \<and> keyIdx k = Some j \<and>
    i < length (contents s) \<and> getData (heap s (contents s ! i)) = Some d \<and> rtype r = ''module''"
  then have w: "fst (updateModuleKeyframePosition api r k s) = None \<and>
         heap (snd (updateModuleKeyframePosition api r k s)) =
           (heap s)(contents s ! i :=
              setData (if keyIdx k = Some 0 then d\<lparr>d_low := val k\<rparr> else d\<lparr>d_high := val k\<rparr>)
                (heap s (contents s ! i)))"
    by (intro updateModuleKeyframePosition_write) auto
  from a w show "fst (processDragElement api e s) = None"
    by (cases "updateModuleKeyframePosition api r k s") (auto simp: processDragElement_def)
  from a w show "heap (snd (processDragElement api e s)) =
        (heap s)(contents s ! i :=
           setData (if j = 0 then d\<lparr>d_low := val k\<rparr> else d\<lparr>d_high := val k\<rparr>)
             (heap s (contents s ! i)))"
    by (cases "updateModuleKeyframePosition api r k s") (auto simp: processDragElement_def)
next
  assume a: "e_row e = Some r \<and> e_keyframe e = Some k \<and> moduleIdx r = Some i \<and> keyIdx k = Some j \<and>
    i < length (contents s) \<and> getData (heap s (contents s ! i)) = Some d \<and>
    rtype r = ''property'' \<and> propertyName r = Some name \<and>
    d_interpolators d = Some m \<and> map_of m name = Some stops \<and> j < length stops \<and>
    absoluteToRelative (heap s (contents s ! i)) k = Inr p"
  then have n: "nameOf r = name" by (simp add: nameOf_def)
  from a n have w: "fst (updatePropertyKeyframePosition api r k s) = None \<and>
         heap (snd (updatePropertyKeyframePosition api r k s)) =
           (heap s)(contents s ! i :=
              setData (d\<lparr>d_interpolators :=
                          Some (objSet m (nameOf r) (stops[j := (stops ! j)\<lparr>position := p\<rparr>]))\<rparr>)
                (heap s (contents s ! i)))"
    by (intro updatePropertyKeyframePosition_write) auto
  from a w show "fst (processDragElement api e s) = None"
    by (auto simp: processDragElement_def)
  from a w n show "heap (snd (processDragElement api e s)) =
        (heap s)(contents s ! i :=
           setData (d\<lparr>d_interpolators :=
                       Some (objSet m name (stops[j := (stops ! j)\<lparr>position := p\<rparr>]))\<rparr>)
             (heap s (contents s ! i)))"
    by (auto simp: processDragElement_def)
next
  assume "e_row e = None \<or> e_keyframe e = None \<or>
    (\<exists>r'. e_row e = Some r' \<and> moduleIdx r' = None) \<or>
    (\<exists>k'. e_keyframe e = Some k' \<and> keyIdx k' = None)"
  then show "processDragElement api e s = (Some (Error ''Unexpected''), s)"
    by (auto simp: processDragElement_def split: option.splits)
next
  assume t: "fst (processDragElement api e s) \<noteq> None"
  show "snd (processDragElement api e s) = s"
  proof (cases "e_row e")
    case None
    then show ?thesis by (simp add: processDragElement_def)
  next
    case (Some r')
    show ?thesis
    proof (cases "e_keyframe e")
      case None
      then show ?thesis using Some by (simp add: processDragElement_def)
    next
      case (Some k')
      note kk = Some
      show ?thesis
      proof (cases "moduleIdx r' = None \<or> keyIdx k' = None")
        case True
        then show ?thesis using \<open>e_row e = Some r'\<close> kk by (simp add: processDragElement_def)
      next
        case False
        show ?thesis
        proof (cases "rtype r' = ''module''")
          case True
          then have np: "rtype r' \<noteq> ''property''" by simp
          obtain x s1 where u: "updateModuleKeyframePosition api r' k' s = (x, s1)"
            by (cases "updateModuleKeyframePosition api r' k' s") auto
          have "processDragElement api e s = updateModuleKeyframePosition api r' k' s"
            using \<open>e_row e = Some r'\<close> kk False True np u
            by (cases x) (auto simp: processDragElement_def)
          then show ?thesis using t updateModuleKeyframePosition_throw by metis
        next
          case nm: False
          show ?thesis
          proof (cases "rtype r' = ''property''")
            case True
            have "processDragElement api e s = updatePropertyKeyframePosition api r' k' s"
              using \<open>e_row e = Some r'\<close> kk False True nm by (auto simp: processDragElement_def)
            then show ?thesis using t updatePropertyKeyframePosition_throw by metis
          next
            case False
            then show ?thesis using \<open>e_row e = Some r'\<close> kk nm
              by (auto simp: processDragElement_def)
          qed
        qed
      qed
    qed
  qed
qed

theorem processDragElement_write_witness:
  "getData (heap (snd (processDragElement api0 drag_module editor0)) 0) =
     Some (data0\<lparr>d_low := 120\<rparr>) \<and>
   setData_calls (heap (snd (processDragElement api0 drag_module editor0)) 0) =
     [data0\<lparr>d_low := 120\<rparr>] \<and>
   getData (heap (snd (processDragElement api0 drag_property editor0)) 0) =
     Some (data0\<lparr>d_interpolators :=
             Some [(''opacity'', [\<lparr>position = PStr ''+75'', sval = JNum 0\<rparr>,
                                  \<lparr>position = PNum 400, sval = JNum 1\<rparr>]),
                   (''zoom'', [])]\<rparr>) \<and>
   processDragElement api0 \<lparr>e_row = None, e_keyframe = None\<rparr> editor0 =
     (Some (Error ''Unexpected''), editor0) \<and>
   fst (processDragElement api0 drag_nodata editor0) = Some (Error ''Module data not yet present'') \<and>
   snd (processDragElement api0 drag_nodata editor0) = editor0"
proof -
  note t = processDragElement_write
  have m: "heap (snd (processDragElement api0 drag_module editor0)) =
      (heap editor0)(0 := setData (data0\<lparr>d_low := 120\<rparr>) content0)"
    using t [where e = drag_module and s = editor0 and i = 0 and j = 0 and d = data0
        and r = "rowFromContent content0 0" and api = api0
        and k = "\<lparr>val = 120, keyIdx = Some 0, ktype = ''absolute'', kgroup = None\<rparr>"]
    by (simp add: drag_module_def editor0_def rowFromContent_def content0_def)
  have p: "heap (snd (processDragElement api0 drag_property editor0)) =
      (heap editor0)(0 := setData
         (data0\<lparr>d_interpolators :=
             Some [(''opacity'', [\<lparr>position = PStr ''+75'', sval = JNum 0\<rparr>,
                                  \<lparr>position = PNum 400, sval = JNum 1\<rparr>]),
                   (''zoom'', [])]\<rparr>) content0)"
    using t [where e = drag_property and s = editor0 and i = 0 and j = 0 and d = data0
        and r = "rowFromProperty [Some True] content0 0 ''opacity'' [stop0, stop1]"
        and api = api0 and name = "''opacity''" and p = "PStr ''+75''"
        and m = "[(''opacity'', [\<lparr>position = PStr ''+50'', sval = JNum 0\<rparr>,
                              \<lparr>position = PNum 400, sval = JNum 1\<rparr>]), (''zoom'', [])]"
        and stops = "[\<lparr>position = PStr ''+50'', sval = JNum 0\<rparr>,
                      \<lparr>position = PNum 400, sval = JNum 1\<rparr>]"
        and k = "\<lparr>val = 175, keyIdx = Some 0, ktype = ''start'', kgroup = Some ''opacity0''\<rparr>"]
    by (simp add: drag_property_def editor0_def rowFromProperty_def content0_def data0_def
        absoluteToRelative_def toString_def toString_nat_examples)
  have u: "processDragElement api0 \<lparr>e_row = None, e_keyframe = None\<rparr> editor0 =
     (Some (Error ''Unexpected''), editor0)"
    using t [where e = "\<lparr>e_row = None, e_keyframe = None\<rparr>" and s = editor0 and api = api0]
    by simp
  have n1: "fst (processDragElement api0 drag_nodata editor0) =
      Some (Error ''Module data not yet present'')"
    by (simp add: processDragElement_def drag_nodata_def rowFromContent_def
        updateModuleKeyframePosition_def getContent_def editor0_def content1_def)
  have n2: "snd (processDragElement api0 drag_nodata editor0) = editor0"
    using t [where e = drag_nodata and s = editor0 and api = api0] n1 by simp
  show ?thesis
    using m p u n1 n2 by (simp add: setData_def content0_def)
qed

subsection \<open>Submitting the text box\<close>

lemma map_of_objSet: "map_of (objSet kvs k v) = (map_of kvs)(k \<mapsto> v)"
  by (induction kvs) (auto simp: fun_eq_iff)

lemma map_of_spreadObj:
  "distinct (map fst b) \<Longrightarrow> map_of (spreadObj a b) = map_of a ++ map_of b"
proof (induction b arbitrary: a)
  case Nil
  then show ?case by simp
next
  case (Cons x b)
  obtain k v where x: "x = (k, v)" by (cases x)
  have nk: "map_of b k = None" using Cons.prems x by (simp add: map_of_eq_None_iff)
  have "map_of (spreadObj a (x # b)) = map_of (objSet a k v) ++ map_of b"
    using Cons x by simp
  also have "\<dots> = (map_of a)(k \<mapsto> v) ++ map_of b" by (simp add: map_of_objSet)
  also have "\<dots> = map_of a ++ map_of (x # b)"
    using nk x by (auto simp: fun_eq_iff map_add_def split: option.splits)
  finally show ?case .
qed

lemma updateModuleData_result:
  assumes "getData (heap s c) = Some d"
  shows "fst (updateModuleData api c p s) = None \<and>
         (if stringify api (spreadData d p) = stringify api d
          then snd (updateModuleData api c p s) = s
          else snd (updateModuleData api c p s) =
                 s\<lparr>heap := (heap s)(c := setData (spreadData d p) (heap s c))\<rparr>)"
  using assms by (simp add: updateModuleData_def Let_def)

lemma updateKeyframeData_result:
  assumes "getData (heap s c) = Some d" "d_interpolators d = Some m"
    and "map_of m name = Some stops" "n < length stops"
  shows "updateKeyframeData api c name (Some n) p s =
           (None, s\<lparr>heap := (heap s)(c := setData
               (d\<lparr>d_interpolators :=
                    Some (objSet m name (stops[n := spreadStop (stops ! n) p]))\<rparr>) (heap s c))\<rparr>)"
  using assms by (simp add: updateKeyframeData_def lookupProperty_def storeProperty_def)

lemma stringify_api0_data0: "stringify api0 data0 = ''100,500''"
  by (simp add: api0_def data0_def toString_def toString_nat.simps digit_def)

text \<open>
  Claim C9. A module edit that changes nothing is a no-op: when the content has data and
  the submitted partial data, merged over it, serialises to the same text as the data
  itself, \<open>_updateModuleData\<close> returns without calling \<open>setData\<close>, and the state,
  with the content in it, is as before.
\<close>

theorem updateModuleData_noop:
  "getData (heap s c) = Some d \<and> stringify api (spreadData d p) = stringify api d \<longrightarrow>
     updateModuleData api c p s = (None, s) \<and>
     setData_calls (heap (snd (updateModuleData api c p s)) c) = setData_calls (heap s c)"
  by (simp add: updateModuleData_def)


theorem updateModuleData_noop_witness:
  "getData (heap editor0 0) = Some data0 \<and>
   stringify api0 (spreadData data0 \<lparr>p_low = Some 100, p_high = None, p_interpolators = None,
                                     p_others = [(''note'', JStr ''x'')]\<rparr>) = ''100,500'' \<and>
   stringify api0 data0 = ''100,500'' \<and>
   updateModuleData api0 0 \<lparr>p_low = Some 100, p_high = None, p_interpolators = None,
                              p_others = [(''note'', JStr ''x'')]\<rparr> editor0 = (None, editor0) \<and>
   setData_calls (heap (snd (updateModuleData api0 0
       \<lparr>p_low = Some 100, p_high = None, p_interpolators = None,
        p_others = [(''note'', JStr ''x'')]\<rparr> editor0)) 0) = []"
proof -
  have a: "getData (heap editor0 0) = Some data0" by (simp add: editor0_def content0_def)
  have b: "stringify api0 (spreadData data0 \<lparr>p_low = Some 100, p_high = None,
      p_interpolators = None, p_others = [(''note'', JStr ''x'')]\<rparr>) = ''100,500''"
    by (simp add: api0_def data0_def spreadData_def toString_def toString_nat.simps digit_def)
  have c: "setData_calls (heap editor0 0) = []" by (simp add: editor0_def content0_def)
  show ?thesis
    using updateModuleData_noop [of editor0 0 data0 api0
        "\<lparr>p_low = Some 100, p_high = None, p_interpolators = None,
          p_others = [(''note'', JStr ''x'')]\<rparr>"] a b c stringify_api0_data0
    by simp
qed

text \<open>
  Claim C6. Submitting the text box for a row whose content exists. If the text is not
  valid JSON, the parser's message is shown and nothing else changes: the content's data
  is as before. If the text parses and the row is a module row (the content having
  data), the parsed object is merged over the content's data and the result is handed
  to \<open>setData\<close>; when the merged blob serialises to the same text as the data, the data
  is left as it is. If the row is a property row with a keyframe, the parsed object is
  merged over the stop at the keyframe's index of the interpolator the row names. The
  merge is shallow: a key of the parsed object replaces the key of the old one, every
  other key is kept.
\<close>

theorem onJsonChanged_spec:
  "(moduleIdx r = Some i \<and> i < length (contents s) \<and> parse api (textarea s) = Inl msg \<longrightarrow>
      onJsonChanged api r k s = (None, s\<lparr>errorMsg := msg\<rparr>) \<and>
      heap (snd (onJsonChanged api r k s)) = heap s) \<and>
   (moduleIdx r = Some i \<and> i < length (contents s) \<and> parse api (textarea s) = Inr j \<and>
    rtype r = ''module'' \<and> getData (heap s (contents s ! i)) = Some d \<longrightarrow>
      fst (onJsonChanged api r k s) = None \<and>
      errorMsg (snd (onJsonChanged api r k s)) = [] \<and>
      (stringify api (spreadData d (as_data api j)) \<noteq> stringify api d \<longrightarrow>
         heap (snd (onJsonChanged api r k s)) =
           (heap s)(contents s ! i := setData (spreadData d (as_data api j)) (heap s (contents s ! i)))) \<and>
      (stringify api (spreadData d (as_data api j)) = stringify api d \<longrightarrow>
         heap (snd (onJsonChanged api r k s)) = heap s)) \<and>
   (moduleIdx r = Some i \<and> i < length (contents s) \<and> parse api (textarea s) = Inr j \<and>
    rtype r = ''property'' \<and> propertyName r = Some name \<and> k = Some key \<and> keyIdx key = Some n \<and>
    getData (heap s (contents s ! i)) = Some d \<and> d_interpolators d = Some m \<and>
    map_of m name = Some stops \<and> n < length stops \<longrightarrow>
      fst (onJsonChanged api r k s) = None \<and>
      errorMsg (snd (onJsonChanged api r k s)) = [] \<and>
      heap (snd (onJsonChanged api r k s)) =
        (heap s)(contents s ! i :=
           setData (d\<lparr>d_interpolators :=
                       Some (objSet m name (stops[n := spreadStop (stops ! n) (as_stop api j)]))\<rparr>)
             (heap s (contents s ! i)))) \<and>
   d_low (spreadData d pd) = (case p_low pd of Some v \<Rightarrow> v | None \<Rightarrow> d_low d) \<and>
   d_high (spreadData d pd) = (case p_high pd of Some v \<Rightarrow> v | None \<Rightarrow> d_high d) \<and>
   d_interpolators (spreadData d pd) =
     (case p_interpolators pd of Some v \<Rightarrow> Some v | None \<Rightarrow> d_interpolators d) \<and>
   (distinct (map fst (p_others pd)) \<longrightarrow>
      map_of (d_others (spreadData d pd)) = map_of (d_others d) ++ map_of (p_others pd)) \<and>
   position (spreadStop st ps) = (case p_position ps of Some v \<Rightarrow> v | None \<Rightarrow> position st) \<and>
   sval (spreadStop st ps) = (case p_sval ps of Some v \<Rightarrow> v | None \<Rightarrow> sval st)"
proof (intro conjI impI)
  assume a: "moduleIdx r = Some i \<and> i < length (contents s) \<and> parse api (textarea s) = Inl msg"
  then show e: "onJsonChanged api r k s = (None, s\<lparr>errorMsg := msg\<rparr>)"
    by (simp add: onJsonChanged_def getContent_def)
  show "heap (snd (onJsonChanged api r k s)) = heap s" by (simp add: e)
next
  assume a: "moduleIdx r = Some i \<and> i < length (contents s) \<and> parse api (textarea s) = Inr j \<and>
    rtype r = ''module'' \<and> getData (heap s (contents s ! i)) = Some d"
  let ?s0 = "s\<lparr>errorMsg := []\<rparr>"
  have np: "rtype r \<noteq> ''property''" using a by simp
  have eq: "onJsonChanged api r k s =
      (None, snd (updateModuleData api (contents s ! i) (as_data api j) ?s0))"
    using a np by (simp add: onJsonChanged_def getContent_def Let_def split: option.splits)
  have u: "fst (updateModuleData api (contents s ! i) (as_data api j) ?s0) = None \<and>
         (if stringify api (spreadData d (as_data api j)) = stringify api d
          then snd (updateModuleData api (contents s ! i) (as_data api j) ?s0) = ?s0
          else snd (updateModuleData api (contents s ! i) (as_data api j) ?s0) =
                 ?s0\<lparr>heap := (heap ?s0)(contents s ! i :=
                     setData (spreadData d (as_data api j)) (heap ?s0 (contents s ! i)))\<rparr>)"
    by (rule updateModuleData_result) (use a in simp)
  show "fst (onJsonChanged api r k s) = None" by (simp add: eq)
  show "errorMsg (snd (onJsonChanged api r k s)) = []"
    using u by (simp add: eq split: if_splits)
  show "heap (snd (onJsonChanged api r k s)) =
           (heap s)(contents s ! i := setData (spreadData d (as_data api j)) (heap s (contents s ! i)))"
    if "stringify api (spreadData d (as_data api j)) \<noteq> stringify api d"
    using u that by (simp add: eq)
  show "heap (snd (onJsonChanged api r k s)) = heap s"
    if "stringify api (spreadData d (as_data api j)) = stringify api d"
    using u that by (simp add: eq)
next
  assume a: "moduleIdx r = Some i \<and> i < length (contents s) \<and> parse api (textarea s) = Inr j \<and>
    rtype r = ''property'' \<and> propertyName r = Some name \<and> k = Some key \<and> keyIdx key = Some n \<and>
    getData (heap s (contents s ! i)) = Some d \<and> d_interpolators d = Some m \<and>
    map_of m name = Some stops \<and> n < length stops"
  let ?s0 = "s\<lparr>errorMsg := []\<rparr>"
  have nm: "rtype r \<noteq> ''module''" using a by simp
  have nn: "nameOf r = name" using a by (simp add: nameOf_def)
  have eq: "onJsonChanged api r k s =
      (None, snd (updateKeyframeData api (contents s ! i) name (Some n) (as_stop api j) ?s0))"
    using a nm nn by (simp add: onJsonChanged_def getContent_def Let_def)
  have u: "updateKeyframeData api (contents s ! i) name (Some n) (as_stop api j) ?s0 =
           (None, ?s0\<lparr>heap := (heap ?s0)(contents s ! i := setData
               (d\<lparr>d_interpolators :=
                    Some (objSet m name (stops[n := spreadStop (stops ! n) (as_stop api j)]))\<rparr>)
               (heap ?s0 (contents s ! i)))\<rparr>)"
    by (rule updateKeyframeData_result) (use a in simp_all)
  show "fst (onJsonChanged api r k s) = None" by (simp add: eq)
  show "errorMsg (snd (onJsonChanged api r k s)) = []" by (simp add: eq u)
  show "heap (snd (onJsonChanged api r k s)) =
        (heap s)(contents s ! i :=
           setData (d\<lparr>d_interpolators :=
                       Some (objSet m name (stops[n := spreadStop (stops ! n) (as_stop api j)]))\<rparr>)
             (heap s (contents s ! i)))"
    by (simp add: eq u)
next
  assume "distinct (map fst (p_others pd))"
  then show "map_of (d_others (spreadData d pd)) = map_of (d_others d) ++ map_of (p_others pd)"
    by (simp add: spreadData_def map_of_spreadObj)
qed (simp_all add: spreadData_def spreadStop_def)

theorem onJsonChanged_spec_witness:
  "onJsonChanged api0 (rowFromContent content0 0) None (editor0\<lparr>textarea := ''oops''\<rparr>) =
     (None, editor0\<lparr>textarea := ''oops'', errorMsg := ''Unexpected token''\<rparr>) \<and>
   getData (heap (snd (onJsonChanged api0 (rowFromContent content0 0) None
                        (editor0\<lparr>textarea := text_low\<rparr>))) 0) =
     Some (data0\<lparr>d_low := 120\<rparr>) \<and>
   getData (heap (snd (onJsonChanged api0
                        (rowFromProperty [Some True] content0 0 ''opacity'' [stop0, stop1])
                        (Some \<lparr>val = 400, keyIdx = Some 1, ktype = ''absolute'',
                               kgroup = Some ''opacity1''\<rparr>)
                        (editor0\<lparr>textarea := text_position\<rparr>))) 0) =
     Some (data0\<lparr>d_interpolators :=
             Some [(''opacity'', [\<lparr>position = PStr ''+50'', sval = JNum 0\<rparr>,
                                  \<lparr>position = PNum 300, sval = JNum 1\<rparr>]),
                   (''zoom'', [])]\<rparr>)"
proof -
  note t = onJsonChanged_spec
  have ne: "''oops'' \<noteq> text_low" "''oops'' \<noteq> text_position" "text_position \<noteq> text_low"
    by (simp_all add: text_low_def text_position_def)
  have a: "onJsonChanged api0 (rowFromContent content0 0) None (editor0\<lparr>textarea := ''oops''\<rparr>) =
     (None, editor0\<lparr>textarea := ''oops'', errorMsg := ''Unexpected token''\<rparr>)"
    using t [where r = "rowFromContent content0 0" and i = 0 and api = api0 and k = None
        and s = "editor0\<lparr>textarea := ''oops''\<rparr>" and msg = "''Unexpected token''"] ne
    by (simp add: rowFromContent_def editor0_def api0_def)
  have b: "heap (snd (onJsonChanged api0 (rowFromContent content0 0) None
                        (editor0\<lparr>textarea := text_low\<rparr>))) =
     (heap editor0)(0 := setData (data0\<lparr>d_low := 120\<rparr>) content0)"
    using t [where r = "rowFromContent content0 0" and i = 0 and api = api0 and k = None
        and s = "editor0\<lparr>textarea := text_low\<rparr>" and d = data0
        and j = "JObj [(''low'', JNum 120)]"]
    by (simp add: rowFromContent_def editor0_def api0_def content0_def spreadData_def data0_def
        toString_def toString_nat.simps digit_def)
  have c: "heap (snd (onJsonChanged api0
                        (rowFromProperty [Some True] content0 0 ''opacity'' [stop0, stop1])
                        (Some \<lparr>val = 400, keyIdx = Some 1, ktype = ''absolute'',
                               kgroup = Some ''opacity1''\<rparr>)
                        (editor0\<lparr>textarea := text_position\<rparr>))) =
     (heap editor0)(0 := setData
        (data0\<lparr>d_interpolators :=
             Some [(''opacity'', [\<lparr>position = PStr ''+50'', sval = JNum 0\<rparr>,
                                  \<lparr>position = PNum 300, sval = JNum 1\<rparr>]),
                   (''zoom'', [])]\<rparr>) content0)"
    using t [where r = "rowFromProperty [Some True] content0 0 ''opacity'' [stop0, stop1]"
        and i = 0 and api = api0 and s = "editor0\<lparr>textarea := text_position\<rparr>" and d = data0
        and k = "Some \<lparr>val = 400, keyIdx = Some 1, ktype = ''absolute'',
                        kgroup = Some ''opacity1''\<rparr>"
        and key = "\<lparr>val = 400, keyIdx = Some 1, ktype = ''absolute'', kgroup = Some ''opacity1''\<rparr>"
        and n = 1 and name = "''opacity''" and j = "JObj [(''position'', JNum 300)]"
        and m = "[(''opacity'', [\<lparr>position = PStr ''+50'', sval = JNum 0\<rparr>,
                              \<lparr>position = PNum 400, sval = JNum 1\<rparr>]), (''zoom'', [])]"
        and stops = "[\<lparr>position = PStr ''+50'', sval = JNum 0\<rparr>,
                      \<lparr>position = PNum 400, sval = JNum 1\<rparr>]"] ne
    by (simp add: rowFromProperty_def editor0_def api0_def content0_def data0_def spreadStop_def)
  show ?thesis using a b c by (simp add: setData_def)
qed

subsection \<open>Shifting the timeline\<close>

lemma expandStops_eq: "expandStops ct v ss = map (shiftStop ct v) ss"
  by (induction ss) (auto simp: shiftStop_def shift_def split: position.splits)

lemma expandInterpolators_eq:
  "expandInterpolators ct v m = map (\<lambda>(name, stops). (name, map (shiftStop ct v) stops)) m"
  by (induction m) (auto simp: expandStops_eq)

lemma expandData_eq:
  "expandData ct v d =
     \<lparr> d_low = shift ct v (d_low d), d_high = shift ct v (d_high d),
       d_interpolators =
         map_option (map (\<lambda>(name, stops). (name, map (shiftStop ct v) stops))) (d_interpolators d),
       d_others = d_others d \<rparr>"
  by (cases "d_interpolators d") (simp_all add: expandData_def shift_def Let_def expandInterpolators_eq)

lemma expandContents_notin:
  "c \<notin> set cs \<Longrightarrow> expandContents ct v cs h c = h c"
  by (induction cs arbitrary: h) (auto split: option.splits)

lemma expandContents_in:
  "distinct cs \<Longrightarrow> c \<in> set cs \<Longrightarrow> getData (h c) = Some d \<Longrightarrow>
   expandContents ct v cs h c = setData (expandData ct v d) (h c)"
proof (induction cs arbitrary: h)
  case Nil
  then show ?case by simp
next
  case (Cons x cs)
  show ?case
  proof (cases "x = c")
    case True
    then have "c \<notin> set cs" using Cons.prems by simp
    then show ?thesis using True Cons.prems by (simp add: expandContents_notin)
  next
    case False
    then have "c \<in> set cs" using Cons.prems by simp
    moreover have "distinct cs" using Cons.prems by simp
    ultimately show ?thesis using False Cons.prems Cons.IH
      by (auto split: option.splits)
  qed
qed

lemma expandContents_nodata:
  "getData (h c) = None \<Longrightarrow> expandContents ct v cs h c = h c"
proof (induction cs arbitrary: h)
  case Nil
  then show ?case by simp
next
  case (Cons x cs)
  then show ?case by (cases "x = c") (auto split: option.splits)
qed

lemma distinct_contents:
  "distinct (contents s) \<Longrightarrow> distinct (contents (addContent c s))"
  "distinct (contents s) \<Longrightarrow> distinct (contents (removeContent c s))"
  "distinct (contents (reset s))"
proof -
  show "distinct (contents s) \<Longrightarrow> distinct (contents (addContent c s))"
    by (simp add: addContent_def onContentsChanged_def)
  show "distinct (contents (reset s))" by (simp add: reset_def)
  assume d: "distinct (contents s)"
  have "distinct (take i (contents s) @ drop (Suc i) (contents s))" for i
  proof -
    have "set (take i (contents s)) \<inter> set (drop (Suc i) (contents s)) = {}"
      using d set_take_disj_set_drop_if_distinct [of "contents s" i "Suc i"] by simp
    then show ?thesis using d by simp
  qed
  then show "distinct (contents (removeContent c s))"
    using d by (simp add: removeContent_def onContentsChanged_def splice1_def split: option.splits)
qed

text \<open>
  Claim C10. Shifting the timeline by \<open>v\<close> with the arrow keys: for every content of the
  editor that has data, the low bound, the high bound and every numeric stop position of
  its data that lies after the current time \<open>t\<close> becomes the maximum of itself plus \<open>v\<close>
  and \<open>t\<close>, so it never crosses the playhead; every value at or before \<open>t\<close> and every
  relative (non-numeric) stop position is unchanged, as is everything else in the data.
  The content list holds each content once, which \<open>addContent\<close>, \<open>removeContent\<close> and
  \<open>reset\<close> maintain (\<open>distinct_contents\<close>).
\<close>

theorem expandTimeline_spec:
  "(distinct (contents s) \<and> c \<in> set (contents s) \<and> getData (heap s c) = Some d \<longrightarrow>
      getData (heap (expandTimeline v s) c) =
        Some \<lparr> d_low = shift (time s) v (d_low d),
               d_high = shift (time s) v (d_high d),
               d_interpolators =
                 map_option (map (\<lambda>(name, stops). (name, map (shiftStop (time s) v) stops)))
                   (d_interpolators d),
               d_others = d_others d \<rparr>) \<and>
   (p > currentTime \<longrightarrow> shift currentTime v p = max (p + v) currentTime \<and>
                           currentTime \<le> shift currentTime v p) \<and>
   (p \<le> currentTime \<longrightarrow> shift currentTime v p = p) \<and>
   (position st = PNum p \<longrightarrow>
      shiftStop currentTime v st = st\<lparr>position := PNum (shift currentTime v p)\<rparr>) \<and>
   (position st = PStr t \<longrightarrow> shiftStop currentTime v st = st)"
proof (intro conjI impI)
  assume a: "distinct (contents s) \<and> c \<in> set (contents s) \<and> getData (heap s c) = Some d"
  then have "heap (expandTimeline v s) c = setData (expandData (time s) v d) (heap s c)"
    by (simp add: expandTimeline_def expandContents_in)
  then show "getData (heap (expandTimeline v s) c) =
        Some \<lparr> d_low = shift (time s) v (d_low d),
               d_high = shift (time s) v (d_high d),
               d_interpolators =
                 map_option (map (\<lambda>(name, stops). (name, map (shiftStop (time s) v) stops)))
                   (d_interpolators d),
               d_others = d_others d \<rparr>"
    by (simp add: setData_def expandData_eq)
qed (simp_all add: shift_def shiftStop_def)


theorem expandTimeline_spec_witness:
  "distinct (contents editor0) \<and> 0 \<in> set (contents editor0) \<and> time editor0 = 200 \<and>
   getData (heap (expandTimeline (- 300) editor0) 0) =
     Some \<lparr> d_low = 100, d_high = 200,
            d_interpolators =
              Some [(''opacity'', [\<lparr>position = PStr ''+50'', sval = JNum 0\<rparr>,
                                   \<lparr>position = PNum 200, sval = JNum 1\<rparr>]),
                    (''zoom'', [])],
            d_others = [(''type'', JStr ''image'')] \<rparr> \<and>
   getData (heap (expandTimeline 100 editor0) 0) =
     Some \<lparr> d_low = 100, d_high = 600,
            d_interpolators =
              Some [(''opacity'', [\<lparr>position = PStr ''+50'', sval = JNum 0\<rparr>,
                                   \<lparr>position = PNum 500, sval = JNum 1\<rparr>]),
                    (''zoom'', [])],
            d_others = [(''type'', JStr ''image'')] \<rparr>"
  using expandTimeline_spec [where s = editor0 and c = 0 and d = data0 and v = "- 300"]
    expandTimeline_spec [where s = editor0 and c = 0 and d = data0 and v = 100]
  by (simp add: editor0_def content0_def data0_def shift_def shiftStop_def)

subsection \<open>Expanding and collapsing\<close>

lemma get_at_set_at_same: "get_at (set_at xs i v) i = v"
  by (simp add: get_at_def set_at_def nth_append)

lemma get_at_set_at_other: "j \<noteq> i \<Longrightarrow> get_at (set_at xs i v) j = get_at xs j"
  by (auto simp: get_at_def set_at_def nth_append nth_Cons' )

lemma toggleRows_consistent:
  assumes "grouped cur rs" "idx + length rs \<le> length nodes"
    and "cur \<noteq> None \<longrightarrow> expanded = truthy (expandedAt ex cur)"
    and "list_all (\<lambda>r. rtype r = ''module'' \<longrightarrow> \<not> hidden r) rs"
  shows "\<exists>rs' nodes'. toggleRows ex expanded idx rs nodes = (None, rs', nodes') \<and>
           grouped cur rs' \<and> list_all (rowVisible ex) rs' \<and>
           length rs' = length rs \<and> length nodes' = length nodes"
  using assms
proof (induction rs arbitrary: cur expanded idx nodes)
  case Nil
  then show ?case by simp
next
  case (Cons r rs)
  show ?case
  proof (cases "rtype r = ''module''")
    case True
    then have np: "rtype r \<noteq> ''property''" by simp
    let ?e = "truthy (expandedAt ex (moduleIdx r))"
    have g: "grouped (moduleIdx r) rs" and mi: "moduleIdx r \<noteq> None"
      using Cons.prems(1) True by simp_all
    have "\<exists>rs' nodes'. toggleRows ex ?e (Suc idx) rs nodes = (None, rs', nodes') \<and>
           grouped (moduleIdx r) rs' \<and> list_all (rowVisible ex) rs' \<and>
           length rs' = length rs \<and> length nodes' = length nodes"
      using Cons.prems g by (intro Cons.IH) auto
    then obtain rs' nodes' where t: "toggleRows ex ?e (Suc idx) rs nodes = (None, rs', nodes')"
      and r: "grouped (moduleIdx r) rs'" "list_all (rowVisible ex) rs'"
        "length rs' = length rs" "length nodes' = length nodes"
      by blast
    have v: "rowVisible ex r" using True np Cons.prems(4) by (simp add: rowVisible_def)
    show ?thesis using True np t r v mi by simp
  next
    case nm: False
    show ?thesis
    proof (cases "rtype r = ''property''")
      case True
      have g: "grouped cur rs" and c: "cur \<noteq> None" and mi: "moduleIdx r = cur"
        using Cons.prems(1) True nm by simp_all
      have lt: "idx < length nodes" using Cons.prems(2) by simp
      let ?nodes = "nodes[idx := (nodes ! idx)\<lparr>display := (if expanded then ''block'' else ''none'')\<rparr>]"
      have "\<exists>rs' nodes'. toggleRows ex expanded (Suc idx) rs ?nodes = (None, rs', nodes') \<and>
           grouped cur rs' \<and> list_all (rowVisible ex) rs' \<and>
           length rs' = length rs \<and> length nodes' = length ?nodes"
        using Cons.prems g by (intro Cons.IH) auto
      then obtain rs' nodes' where t: "toggleRows ex expanded (Suc idx) rs ?nodes = (None, rs', nodes')"
        and r: "grouped cur rs'" "list_all (rowVisible ex) rs'"
          "length rs' = length rs" "length nodes' = length nodes"
        by auto
      have e: "expanded = truthy (expandedAt ex cur)" using Cons.prems(3) c by simp
      have v: "rowVisible ex (r\<lparr>hidden := \<not> expanded\<rparr>)"
        using True nm e mi by (simp add: rowVisible_def)
      show ?thesis using True nm t r v lt c mi by simp
    next
      case False
      have g: "grouped cur rs" using Cons.prems(1) False nm by simp
      have "\<exists>rs' nodes'. toggleRows ex expanded (Suc idx) rs nodes = (None, rs', nodes') \<and>
           grouped cur rs' \<and> list_all (rowVisible ex) rs' \<and>
           length rs' = length rs \<and> length nodes' = length nodes"
        using Cons.prems g by (intro Cons.IH) auto
      then obtain rs' nodes' where t: "toggleRows ex expanded (Suc idx) rs nodes = (None, rs', nodes')"
        and r: "grouped cur rs'" "list_all (rowVisible ex) rs'"
          "length rs' = length rs" "length nodes' = length nodes"
        by blast
      have v: "rowVisible ex r" using False nm by (simp add: rowVisible_def)
      show ?thesis using False nm t r v by simp
    qed
  qed
qed

lemma toggleGroup_consistent:
  assumes "consistent s"
  shows "fst (toggleGroup i s) = None \<and> consistent (snd (toggleGroup i s))"
proof -
  let ?ex = "set_at (expandedRows s) i (Some (\<not> truthy (get_at (expandedRows s) i)))"
  have m: "list_all (\<lambda>r. rtype r = ''module'' \<longrightarrow> \<not> hidden r) (rows s)"
    using assms by (auto simp: consistent_def visibility_ok_def rowVisible_def list_all_iff)
  have "\<exists>rs' nodes'. toggleRows ?ex False 0 (rows s) (outline s) = (None, rs', nodes') \<and>
           grouped None rs' \<and> list_all (rowVisible ?ex) rs' \<and>
           length rs' = length (rows s) \<and> length nodes' = length (outline s)"
    using assms m by (intro toggleRows_consistent) (auto simp: consistent_def)
  then obtain rs' nodes' where t: "toggleRows ?ex False 0 (rows s) (outline s) = (None, rs', nodes')"
    and r: "grouped None rs'" "list_all (rowVisible ?ex) rs'"
      "length rs' = length (rows s)" "length nodes' = length (outline s)"
    by blast
  show ?thesis
    using t r assms by (simp add: toggleGroup_def Let_def consistent_def visibility_ok_def)
qed

lemma grouped_properties:
  "grouped (Some i) (map (\<lambda>(name, stops). rowFromProperty ex c i name stops) ps @ rest) =
     grouped (Some i) rest"
  by (induction ps) (auto simp: rowFromProperty_def)

lemma grouped_rowsOf: "grouped cur (rowsOf ex c i @ rest) = grouped (Some i) rest"
  using grouped_properties [of i ex c "getInterpolators c" rest]
  by (simp add: rowsOf_def rowFromContent_def)

lemma grouped_concat:
  "grouped cur (concat (map (\<lambda>(idx, c). rowsOf ex (h c) idx) (enumerate i cs)))"
  by (induction cs arbitrary: cur i) (simp_all add: grouped_rowsOf)

lemma visible_rowsOf: "list_all (rowVisible ex) (rowsOf ex c i)"
  by (auto simp: rowsOf_def rowVisible_def rowFromContent_def rowFromProperty_def list_all_iff
      expandedAt_def)

lemma visible_concat:
  "list_all (rowVisible ex) (concat (map (\<lambda>(idx, c). rowsOf ex (h c) idx) (enumerate i cs)))"
  by (induction cs arbitrary: i) (simp_all add: visible_rowsOf)

lemma redraw_consistent: "consistent (redraw s)"
proof -
  have e: "expandedRows (redraw s) = expandedRows s"
    by (simp add: redraw_def redrawOutline_def redrawTimeline_def)
  have l: "length (outline (redraw s)) = length (rows (redraw s))"
    by (simp add: outline_redraw)
  show ?thesis
    unfolding consistent_def visibility_ok_def rows_redraw e
    using l by (simp add: rows_redraw rows_spec_def grouped_concat visible_concat)
qed

lemma run_consistent: "consistent s \<Longrightarrow> consistent (run gs s)"
proof (induction gs arbitrary: s)
  case Nil
  then show ?case by simp
next
  case (Cons g gs)
  show ?case
  proof (cases g)
    case (Toggle i)
    then show ?thesis using Cons toggleGroup_consistent [of s i] by simp
  next
    case Redraw
    then show ?thesis using Cons redraw_consistent [of s] by simp
  qed
qed

lemma toggleGroup_flag:
  "expandedRows (snd (toggleGroup i s)) =
     set_at (expandedRows s) i (Some (\<not> truthy (get_at (expandedRows s) i)))"
  by (simp add: toggleGroup_def Let_def split: prod.splits)

text \<open>
  Claim C5. The expand flag of a module governs the visibility of its property rows.
  After a redraw, and after any sequence of toggles and redraws that follows one (or
  that starts from the empty editor), module rows are not hidden and every property row
  is hidden exactly when the flag of its module is not set (\<open>visibility_ok\<close>). In such a
  state a toggle does not throw. A toggle of module \<open>i\<close> flips the flag of \<open>i\<close> and
  leaves every other flag as it reads.
\<close>

theorem visibility_invariant:
  "visibility_ok (redraw s) \<and>
   visibility_ok (run gs (redraw s)) \<and>
   (rows s = [] \<and> outline s = [] \<longrightarrow> visibility_ok (run gs s)) \<and>
   fst (toggleGroup i (run gs (redraw s))) = None \<and>
   visibility_ok (snd (toggleGroup i (run gs (redraw s)))) \<and>
   truthy (get_at (expandedRows (snd (toggleGroup i s))) i) =
     (\<not> truthy (get_at (expandedRows s) i)) \<and>
   (j \<noteq> i \<longrightarrow> get_at (expandedRows (snd (toggleGroup i s))) j = get_at (expandedRows s) j)"
proof -
  have c: "consistent (run gs (redraw s))"
    by (rule run_consistent) (rule redraw_consistent)
  have a1: "visibility_ok (redraw s)" using redraw_consistent [of s] by (simp add: consistent_def)
  have a2: "visibility_ok (run gs (redraw s))" using c by (simp add: consistent_def)
  have a3: "visibility_ok (run gs s)" if "rows s = [] \<and> outline s = []"
  proof -
    have "consistent s" using that by (simp add: consistent_def visibility_ok_def)
    then have "consistent (run gs s)" by (rule run_consistent)
    then show ?thesis by (simp add: consistent_def)
  qed
  have a4: "fst (toggleGroup i (run gs (redraw s))) = None"
    and a5: "visibility_ok (snd (toggleGroup i (run gs (redraw s))))"
    using toggleGroup_consistent [OF c, of i] by (simp_all add: consistent_def)
  have a6: "truthy (get_at (expandedRows (snd (toggleGroup i s))) i) =
     (\<not> truthy (get_at (expandedRows s) i))"
    by (simp add: toggleGroup_flag get_at_set_at_same truthy_def)
  have a7: "get_at (expandedRows (snd (toggleGroup i s))) j = get_at (expandedRows s) j" if "j \<noteq> i"
    using that by (simp add: toggleGroup_flag get_at_set_at_other)
  show ?thesis using a1 a2 a3 a4 a5 a6 a7 by blast
qed


lemma run_editor0:
  "map hidden (rows (run [Toggle 0, Toggle 1] (redraw editor0))) = [False, True, True, False, False]"
  "expandedRows (run [Toggle 0, Toggle 1] (redraw editor0)) = [Some False, Some True]"
  "expandedRows (snd (toggleGroup 0 editor0)) = [Some False]"
  by (simp_all add: rows_redraw redraw_def redrawOutline_def redrawTimeline_def pushContents_eq rowsOf_def
      appendNodes_eq editor0_def content0_def content1_def
      enumerate_eq_zip rowFromContent_def rowFromProperty_def upt_rec get_at_def set_at_def truthy_def
      toggleGroup_def Let_def expandedAt_def outlineNode_def)

theorem visibility_invariant_witness:
  "visibility_ok (run [Toggle 0, Toggle 1] (redraw editor0)) \<and>
   map hidden (rows (run [Toggle 0, Toggle 1] (redraw editor0))) =
     [False, True, True, False, False] \<and>
   expandedRows (run [Toggle 0, Toggle 1] (redraw editor0)) = [Some False, Some True] \<and>
   visibility_ok (run [Redraw, Toggle 0] editor0) \<and>
   truthy (get_at (expandedRows (snd (toggleGroup 0 editor0))) 0) = False \<and>
   get_at (expandedRows (snd (toggleGroup 0 editor0))) 1 = None"
  using visibility_invariant [where s = editor0 and gs = "[Toggle 0, Toggle 1]" and i = 0 and j = 1]
    visibility_invariant [where s = editor0 and gs = "[Redraw, Toggle 0]" and i = 0 and j = 1]
    run_editor0
  by (simp add: editor0_def get_at_def truthy_def)

end
